theory Spec2Isabelle
  imports Complex_Main "HOL-Library.Product_Lexorder" "HOL-Library.Multiset"
begin

section \<open>Floating-point values\<close>

text \<open>
  NumPy arrays of dtype float64 hold finite numbers, the two infinities and NaN.
  Finite values are idealised as reals (no rounding, no overflow, no signed zero);
  what is kept of IEEE arithmetic is everything the estimators can observe without
  rounding: division by zero does not raise but yields \<open>inf\<close> or \<open>nan\<close>, and
  these values propagate. The divisors of this program (a row count, a sum of squares, a
  singular value) are never negative zero, so \<open>x / 0\<close> takes the sign of \<open>x\<close>.
\<close>

datatype npfloat = Fin real | PInf | NInf | NaN

instantiation npfloat :: "{zero, plus, uminus, minus, times, inverse}"
begin

definition zero_npfloat :: npfloat where
  "zero_npfloat = Fin 0"

fun plus_npfloat :: "npfloat \<Rightarrow> npfloat \<Rightarrow> npfloat" where
  "plus_npfloat (Fin a) (Fin b) = Fin (a + b)"
| "plus_npfloat NaN _ = NaN"
| "plus_npfloat _ NaN = NaN"
| "plus_npfloat PInf NInf = NaN"
| "plus_npfloat NInf PInf = NaN"
| "plus_npfloat PInf _ = PInf"
| "plus_npfloat _ PInf = PInf"
| "plus_npfloat NInf _ = NInf"
| "plus_npfloat _ NInf = NInf"

fun uminus_npfloat :: "npfloat \<Rightarrow> npfloat" where
  "uminus_npfloat (Fin a) = Fin (- a)"
| "uminus_npfloat PInf = NInf"
| "uminus_npfloat NInf = PInf"
| "uminus_npfloat NaN = NaN"

definition minus_npfloat :: "npfloat \<Rightarrow> npfloat \<Rightarrow> npfloat" where
  "minus_npfloat x y = x + (- y)"

fun times_npfloat :: "npfloat \<Rightarrow> npfloat \<Rightarrow> npfloat" where
  "times_npfloat (Fin a) (Fin b) = Fin (a * b)"
| "times_npfloat NaN _ = NaN"
| "times_npfloat _ NaN = NaN"
| "times_npfloat PInf (Fin b) = (if b = 0 then NaN else if 0 < b then PInf else NInf)"
| "times_npfloat NInf (Fin b) = (if b = 0 then NaN else if 0 < b then NInf else PInf)"
| "times_npfloat (Fin a) PInf = (if a = 0 then NaN else if 0 < a then PInf else NInf)"
| "times_npfloat (Fin a) NInf = (if a = 0 then NaN else if 0 < a then NInf else PInf)"
| "times_npfloat PInf PInf = PInf"
| "times_npfloat NInf NInf = PInf"
| "times_npfloat PInf NInf = NInf"
| "times_npfloat NInf PInf = NInf"

fun divide_npfloat :: "npfloat \<Rightarrow> npfloat \<Rightarrow> npfloat" where
  "divide_npfloat (Fin a) (Fin b) =
     (if b \<noteq> 0 then Fin (a / b)
      else if a = 0 then NaN else if 0 < a then PInf else NInf)"
| "divide_npfloat NaN _ = NaN"
| "divide_npfloat _ NaN = NaN"
| "divide_npfloat (Fin a) _ = Fin 0"
| "divide_npfloat PInf (Fin b) = (if 0 \<le> b then PInf else NInf)"
| "divide_npfloat NInf (Fin b) = (if 0 \<le> b then NInf else PInf)"
| "divide_npfloat PInf PInf = NaN"
| "divide_npfloat PInf NInf = NaN"
| "divide_npfloat NInf PInf = NaN"
| "divide_npfloat NInf NInf = NaN"

definition inverse_npfloat :: "npfloat \<Rightarrow> npfloat" where
  "inverse_npfloat x = divide (Fin 1) x"

instance ..

end

instance npfloat :: comm_monoid_add
proof
  fix x y z :: npfloat
  show "0 + x = x"
    by (cases x; simp add: zero_npfloat_def)
  show "x + y = y + x"
    by (cases x; cases y; simp)
  show "x + y + z = x + (y + z)"
    by (cases x; cases y; cases z; simp)
qed

text \<open>\<open>np.sqrt\<close> and \<open>np.maximum\<close> (which propagates NaN).\<close>

fun np_sqrt :: "npfloat \<Rightarrow> npfloat" where
  "np_sqrt (Fin a) = (if a < 0 then NaN else Fin (sqrt a))"
| "np_sqrt PInf = PInf"
| "np_sqrt NInf = NaN"
| "np_sqrt NaN = NaN"

fun np_maximum :: "npfloat \<Rightarrow> npfloat \<Rightarrow> npfloat" where
  "np_maximum (Fin a) (Fin b) = Fin (max a b)"
| "np_maximum NaN _ = NaN"
| "np_maximum _ NaN = NaN"
| "np_maximum PInf _ = PInf"
| "np_maximum _ PInf = PInf"
| "np_maximum NInf y = y"
| "np_maximum x NInf = x"

text \<open>
  The order NumPy sorts by: \<open>-inf\<close>, the finite values, \<open>inf\<close>, and NaN last.
\<close>

fun sort_key_npfloat :: "npfloat \<Rightarrow> nat \<times> real" where
  "sort_key_npfloat NInf = (0, 0)"
| "sort_key_npfloat (Fin a) = (1, a)"
| "sort_key_npfloat PInf = (2, 0)"
| "sort_key_npfloat NaN = (3, 0)"

fun is_Fin :: "npfloat \<Rightarrow> bool" where
  "is_Fin (Fin a) = True"
| "is_Fin _ = False"

fun the_Fin :: "npfloat \<Rightarrow> real" where
  "the_Fin (Fin a) = a"
| "the_Fin _ = 0"

text \<open>A Python \<open>int\<close> row count used in float arithmetic.\<close>

definition of_count :: "nat \<Rightarrow> npfloat" where
  "of_count n = Fin (real n)"

section \<open>Exceptions\<close>

datatype pyerror =
    ZeroDivisionError
  | TypeError
  | AttributeError
  | IndexError
  | LinAlgError
  | ValueError string

section \<open>Arrays\<close>

text \<open>
  A one-dimensional array is a list. A two-dimensional array of shape \<open>(n, p)\<close> is
  its \<open>n\<close> rows together with \<open>p\<close>, which the rows do not determine when
  \<open>n = 0\<close>.
\<close>

datatype 'a mat = Mat (ncols: nat) (rows: "'a list list")

definition nrows :: "'a mat \<Rightarrow> nat" where
  "nrows A = length (rows A)"

definition wf_mat :: "'a mat \<Rightarrow> bool" where
  "wf_mat A = list_all (\<lambda>r. length r = ncols A) (rows A)"

definition col :: "'a mat \<Rightarrow> nat \<Rightarrow> 'a list" where
  "col A j = map (\<lambda>r. r ! j) (rows A)"

text \<open>\<open>np.asarray\<close> of a dense real dataset.\<close>

definition np_asarray :: "real mat \<Rightarrow> npfloat mat" where
  "np_asarray X = map_mat Fin X"

text \<open>\<open>np.sum(X, axis=0)\<close>, \<open>X.T\<close>, \<open>np.outer\<close>, \<open>np.diag\<close>.\<close>

definition np_sum0 :: "'a::comm_monoid_add mat \<Rightarrow> 'a list" where
  "np_sum0 A = map (\<lambda>j. sum_list (col A j)) [0..<ncols A]"

definition np_T :: "'a mat \<Rightarrow> 'a mat" where
  "np_T A = Mat (nrows A) (map (col A) [0..<ncols A])"

definition np_outer :: "'a::times list \<Rightarrow> 'a list \<Rightarrow> 'a mat" where
  "np_outer u v = Mat (length v) (map (\<lambda>a. map (\<lambda>b. a * b) v) u)"

definition np_diag :: "'a::zero list \<Rightarrow> 'a mat" where
  "np_diag s = Mat (length s)
     (map (\<lambda>i. map (\<lambda>j. if i = j then s ! i else 0) [0..<length s]) [0..<length s])"

text \<open>The matrix product \<open>A @ B\<close>; NumPy raises when the inner dimensions differ.\<close>

definition dot :: "'a::{comm_monoid_add,times} list \<Rightarrow> 'a list \<Rightarrow> 'a" where
  "dot a b = sum_list (map2 (*) a b)"

definition matmul :: "'a::{comm_monoid_add,times} mat \<Rightarrow> 'a mat \<Rightarrow> 'a mat" where
  "matmul A B = Mat (ncols B) (map (\<lambda>a. map (\<lambda>j. dot a (col B j)) [0..<ncols B]) (rows A))"

definition np_matmul ::
  "'a::{comm_monoid_add,times} mat \<Rightarrow> 'a mat \<Rightarrow> pyerror + 'a mat" where
  "np_matmul A B =
     (if ncols A = nrows B then Inr (matmul A B)
      else Inl (ValueError ''matmul: mismatch in core dimension''))"

text \<open>
  Broadcasting of elementwise operations: two lengths are compatible when they are equal
  or one of them is 1.
\<close>

definition bc_len :: "nat \<Rightarrow> nat \<Rightarrow> nat option" where
  "bc_len p q = (if p = q then Some p else if p = 1 then Some q
                 else if q = 1 then Some p else None)"

definition bc_row :: "('a \<Rightarrow> 'a \<Rightarrow> 'a) \<Rightarrow> 'a list \<Rightarrow> 'a list \<Rightarrow> 'a list" where
  "bc_row f a b =
     (if length a = length b then map2 f a b
      else if length a = 1 then map (f (hd a)) b
      else map (\<lambda>x. f x (hd b)) a)"

definition np_bin1 :: "('a \<Rightarrow> 'a \<Rightarrow> 'a) \<Rightarrow> 'a list \<Rightarrow> 'a list \<Rightarrow> pyerror + 'a list" where
  "np_bin1 f a b =
     (case bc_len (length a) (length b) of
        None \<Rightarrow> Inl (ValueError ''operands could not be broadcast together'')
      | Some _ \<Rightarrow> Inr (bc_row f a b))"

definition np_bin_mv :: "('a \<Rightarrow> 'a \<Rightarrow> 'a) \<Rightarrow> 'a mat \<Rightarrow> 'a list \<Rightarrow> pyerror + 'a mat" where
  "np_bin_mv f A v =
     (case bc_len (ncols A) (length v) of
        None \<Rightarrow> Inl (ValueError ''operands could not be broadcast together'')
      | Some c \<Rightarrow> Inr (Mat c (map (\<lambda>r. bc_row f r v) (rows A))))"

definition np_bin2 :: "('a \<Rightarrow> 'a \<Rightarrow> 'a) \<Rightarrow> 'a mat \<Rightarrow> 'a mat \<Rightarrow> pyerror + 'a mat" where
  "np_bin2 f A B =
     (case (bc_len (nrows A) (nrows B), bc_len (ncols A) (ncols B)) of
        (Some _, Some c) \<Rightarrow>
          Inr (Mat c
            (if nrows A = nrows B then map2 (bc_row f) (rows A) (rows B)
             else if nrows A = 1 then map (bc_row f (hd (rows A))) (rows B)
             else map (\<lambda>r. bc_row f r (hd (rows B))) (rows A)))
      | _ \<Rightarrow> Inl (ValueError ''operands could not be broadcast together''))"

text \<open>\<open>np.vstack\<close> of a list of two-dimensional arrays.\<close>

definition np_vstack :: "'a mat list \<Rightarrow> pyerror + 'a mat" where
  "np_vstack As =
     (case As of
        [] \<Rightarrow> Inl (ValueError ''need at least one array to concatenate'')
      | A # Bs \<Rightarrow>
          if list_all (\<lambda>B. ncols B = ncols A) Bs
          then Inr (Mat (ncols A) (concat (map rows As)))
          else Inl (ValueError ''all the input array dimensions except for the concatenation axis must match exactly''))"

text \<open>
  Python slicing \<open>xs[:k]\<close>: a negative \<open>k\<close> counts from the end, and an index
  beyond the length is clipped silently. \<open>A[:k, :]\<close> and \<open>A[:, :k]\<close> slice the
  rows and the columns of a two-dimensional array.
\<close>

definition py_slice_to :: "int \<Rightarrow> 'a list \<Rightarrow> 'a list" where
  "py_slice_to k xs = (if 0 \<le> k then take (nat k) xs else take (length xs - nat (- k)) xs)"

definition slice_rows :: "int \<Rightarrow> 'a mat \<Rightarrow> 'a mat" where
  "slice_rows k A = Mat (ncols A) (py_slice_to k (rows A))"

definition slice_cols :: "int \<Rightarrow> 'a mat \<Rightarrow> 'a mat" where
  "slice_cols k A = Mat (length (py_slice_to k [0..<ncols A])) (map (py_slice_to k) (rows A))"

text \<open>
  Python's \<open>sum\<close> over a non-empty sequence of arrays: \<open>0 + a1 + a2 + ...\<close>, where
  \<open>0 + a1\<close> is \<open>a1\<close>; each addition broadcasts and may raise.
\<close>

fun fold_err :: "('a \<Rightarrow> 'b \<Rightarrow> pyerror + 'a) \<Rightarrow> 'a \<Rightarrow> 'b list \<Rightarrow> pyerror + 'a" where
  "fold_err f a [] = Inr a"
| "fold_err f a (x # xs) = (case f a x of Inl e \<Rightarrow> Inl e | Inr a' \<Rightarrow> fold_err f a' xs)"

fun map_err :: "('a \<Rightarrow> pyerror + 'b) \<Rightarrow> 'a list \<Rightarrow> pyerror + 'b list" where
  "map_err f [] = Inr []"
| "map_err f (x # xs) =
     (case f x of
        Inl e \<Rightarrow> Inl e
      | Inr y \<Rightarrow> (case map_err f xs of Inl e \<Rightarrow> Inl e | Inr ys \<Rightarrow> Inr (y # ys)))"

text \<open>
  \<open>np.argsort\<close> and fancy indexing \<open>A[:, idx]\<close>, which raises IndexError on an
  index beyond the columns. NumPy's default sort leaves the order among equal keys
  open; the model takes the stable one. The sorted values, which are what the
  results on the stored singular values read, are the same for every such order.
\<close>

definition np_argsort :: "npfloat list \<Rightarrow> nat list" where
  "np_argsort xs = sort_key (\<lambda>i. sort_key_npfloat (xs ! i)) [0..<length xs]"

definition take_cols :: "nat list \<Rightarrow> 'a mat \<Rightarrow> pyerror + 'a mat" where
  "take_cols idx A =
     (if list_all (\<lambda>i. i < ncols A) idx
      then Inr (Mat (length idx) (map (\<lambda>r. map (\<lambda>i. r ! i) idx) (rows A)))
      else Inl IndexError)"

text \<open>
  \<open>X - m\<close> where \<open>m\<close> may still be the unset sentinel \<open>None\<close>: NumPy applies
  the subtraction to every element, so it raises TypeError as soon as \<open>X\<close> has an
  element, and returns an array without elements otherwise.
\<close>

definition sub_sentinel :: "npfloat mat \<Rightarrow> npfloat list option \<Rightarrow> pyerror + npfloat mat" where
  "sub_sentinel X m =
     (case m of
        None \<Rightarrow> if nrows X = 0 \<or> ncols X = 0 then Inr X else Inl TypeError
      | Some v \<Rightarrow> np_bin_mv (-) X v)"

definition add_sentinel :: "npfloat mat \<Rightarrow> npfloat list option \<Rightarrow> pyerror + npfloat mat" where
  "add_sentinel X m =
     (case m of
        None \<Rightarrow> if nrows X = 0 \<or> ncols X = 0 then Inr X else Inl TypeError
      | Some v \<Rightarrow> np_bin_mv (+) X v)"

section \<open>The linear-algebra collaborators\<close>

text \<open>
  \<open>scipy.linalg.svd(A, full_matrices=False)\<close>, \<open>np.linalg.eigh\<close> and the solver
  behind \<open>np.linalg.lstsq\<close> are library routines; the estimators take them as
  parameters. Each either raises or returns its factors.
\<close>

type_synonym svd_fn = "npfloat mat \<Rightarrow> pyerror + (npfloat mat \<times> npfloat list \<times> npfloat mat)"

type_synonym eigh_fn = "npfloat mat \<Rightarrow> pyerror + (npfloat list \<times> npfloat mat)"

section \<open>FederatedSVD\<close>

record fsvd =
  f_n_components :: "int option"
  f_n_iterations :: int
  f_U :: "npfloat mat option"
  f_s :: "npfloat list option"
  f_Vt :: "npfloat mat option"
  f_mean :: "npfloat list option"

definition fsvd_init :: "int option \<Rightarrow> int \<Rightarrow> fsvd" where
  "fsvd_init n_components n_iterations =
     \<lparr>f_n_components = n_components, f_n_iterations = n_iterations,
      f_U = None, f_s = None, f_Vt = None, f_mean = None\<rparr>"

record local_stats =
  n_samples :: nat
  local_sum :: "npfloat list"
  local_cov :: "npfloat mat"

text \<open>The aggregated dictionary; its key \<open>'n_samples'\<close> is the field \<open>total_n\<close>.\<close>

record global_stats =
  mean :: "npfloat list"
  cov :: "npfloat mat"
  total_n :: nat

definition compute_local_statistics :: "real mat \<Rightarrow> local_stats" where
  "compute_local_statistics X0 =
     (let X = np_asarray X0 in
      \<lparr>n_samples = nrows X, local_sum = np_sum0 X, local_cov = matmul (np_T X) X\<rparr>)"

definition aggregate_statistics :: "local_stats list \<Rightarrow> pyerror + global_stats" where
  "aggregate_statistics local_stats_list =
     (let total_samples = sum_list (map n_samples local_stats_list) in
      case local_stats_list of
        [] \<Rightarrow> Inl ZeroDivisionError
      | st # sts \<Rightarrow>
          (case fold_err (np_bin1 (+)) (local_sum st) (map local_sum sts) of
             Inl e \<Rightarrow> Inl e
           | Inr global_sum \<Rightarrow>
               let global_mean = map (\<lambda>x. x / of_count total_samples) global_sum in
               (case fold_err (np_bin2 (+)) (local_cov st) (map local_cov sts) of
                  Inl e \<Rightarrow> Inl e
                | Inr global_cov \<Rightarrow>
                    (case np_bin2 (-) global_cov
                            (map_mat (\<lambda>x. of_count total_samples * x)
                               (np_outer global_mean global_mean)) of
                       Inl e \<Rightarrow> Inl e
                     | Inr global_cov' \<Rightarrow>
                         Inr \<lparr>mean = global_mean, cov = global_cov',
                              total_n = total_samples\<rparr>))))"

definition fsvd_fit :: "eigh_fn \<Rightarrow> real mat list \<Rightarrow> fsvd \<Rightarrow> pyerror option \<times> fsvd" where
  "fsvd_fit eigh X_nodes self =
     (let local_stats = map compute_local_statistics X_nodes in
      case aggregate_statistics local_stats of
        Inl e \<Rightarrow> (Some e, self)
      | Inr global_stats \<Rightarrow>
          let self1 = self\<lparr>f_mean := Some (mean global_stats)\<rparr>;
              global_cov = cov global_stats in
          (case eigh global_cov of
             Inl e \<Rightarrow> (Some e, self1)
           | Inr (eigenvalues, eigenvectors) \<Rightarrow>
               let idx = rev (np_argsort eigenvalues);
                   eigenvalues' = map (\<lambda>i. eigenvalues ! i) idx in
               (case take_cols idx eigenvectors of
                  Inl e \<Rightarrow> (Some e, self1)
                | Inr eigenvectors' \<Rightarrow>
                    let singular_values = map (\<lambda>x. np_sqrt (np_maximum x 0)) eigenvalues';
                        singular_values' =
                          (case f_n_components self of
                             None \<Rightarrow> singular_values
                           | Some k \<Rightarrow> py_slice_to k singular_values);
                        eigenvectors'' =
                          (case f_n_components self of
                             None \<Rightarrow> eigenvectors'
                           | Some k \<Rightarrow> slice_cols k eigenvectors');
                        self2 = self1\<lparr>f_s := Some singular_values',
                                      f_Vt := Some (np_T eigenvectors'')\<rparr> in
                    (case np_vstack (map np_asarray X_nodes) of
                       Inl e \<Rightarrow> (Some e, self2)
                     | Inr X_full \<Rightarrow>
                         (case sub_sentinel X_full (f_mean self2) of
                            Inl e \<Rightarrow> (Some e, self2)
                          | Inr X_centered \<Rightarrow>
                              (case np_matmul X_centered eigenvectors'' of
                                 Inl e \<Rightarrow> (Some e, self2)
                               | Inr P \<Rightarrow>
                                   (case np_bin_mv (/) P singular_values' of
                                      Inl e \<Rightarrow> (Some e, self2)
                                    | Inr U \<Rightarrow> (None, self2\<lparr>f_U := Some U\<rparr>))))))))"

definition fsvd_transform :: "real mat \<Rightarrow> fsvd \<Rightarrow> pyerror + npfloat mat" where
  "fsvd_transform X0 self =
     (let X = np_asarray X0 in
      case sub_sentinel X (f_mean self) of
        Inl e \<Rightarrow> Inl e
      | Inr X_centered \<Rightarrow>
          (case f_Vt self of
             None \<Rightarrow> Inl AttributeError
           | Some Vt \<Rightarrow> np_matmul X_centered (np_T Vt)))"

definition fsvd_inverse_transform :: "npfloat mat \<Rightarrow> fsvd \<Rightarrow> pyerror + npfloat mat" where
  "fsvd_inverse_transform X_transformed self =
     (case f_Vt self of
        None \<Rightarrow> Inl (ValueError ''matmul: Input operand 1 does not have enough dimensions'')
      | Some Vt \<Rightarrow>
          (case np_matmul X_transformed Vt of
             Inl e \<Rightarrow> Inl e
           | Inr P \<Rightarrow> add_sentinel P (f_mean self)))"

definition fsvd_explained_variance_ratio :: "fsvd \<Rightarrow> pyerror + npfloat list" where
  "fsvd_explained_variance_ratio self =
     (case f_s self of
        None \<Rightarrow> Inl (ValueError ''Model has not been fitted yet.'')
      | Some s \<Rightarrow>
          let variance = map (\<lambda>x. x * x) s;
              total_variance = sum_list variance in
          Inr (map (\<lambda>v. v / total_variance) variance))"

datatype pyval = PyStr string | PyBool bool

definition fsvd_get_privacy_budget :: "fsvd \<Rightarrow> (string \<rightharpoonup> pyval)" where
  "fsvd_get_privacy_budget self =
     map_of
       [(''method'', PyStr ''Federated Learning''),
        (''data_sharing'', PyStr ''Only aggregated statistics (mean, covariance)''),
        (''raw_data_shared'', PyBool False),
        (''privacy_level'', PyStr ''High - raw data never leaves local nodes'')]"

section \<open>DistributedSVD\<close>

record dsvd =
  d_n_components :: "int option"
  d_U :: "npfloat mat option"
  d_s :: "npfloat list option"
  d_Vt :: "npfloat mat option"
  d_mean :: "npfloat list option"

definition dsvd_init :: "int option \<Rightarrow> dsvd" where
  "dsvd_init n_components =
     \<lparr>d_n_components = n_components, d_U = None, d_s = None, d_Vt = None, d_mean = None\<rparr>"

definition dsvd_fit :: "svd_fn \<Rightarrow> real mat list \<Rightarrow> dsvd \<Rightarrow> pyerror option \<times> dsvd" where
  "dsvd_fit svd X_partitions0 self =
     (let X_partitions = map np_asarray X_partitions0;
          total_samples = sum_list (map nrows X_partitions) in
      case X_partitions of
        [] \<Rightarrow> (Some ZeroDivisionError, self)
      | X # Xs \<Rightarrow>
          (case fold_err (np_bin1 (+)) (np_sum0 X) (map np_sum0 Xs) of
             Inl e \<Rightarrow> (Some e, self)
           | Inr column_sum \<Rightarrow>
               let self1 = self\<lparr>d_mean := Some (map (\<lambda>x. x / of_count total_samples) column_sum)\<rparr> in
               (case map_err (\<lambda>X. sub_sentinel X (d_mean self1)) X_partitions of
                  Inl e \<Rightarrow> (Some e, self1)
                | Inr X_centered \<Rightarrow>
                    (case map_err svd (filter (\<lambda>X. 0 < nrows X) X_centered) of
                       Inl e \<Rightarrow> (Some e, self1)
                     | Inr local_svds \<Rightarrow>
                         (case map_err (\<lambda>(U_local, s_local, Vt_local).
                                  np_matmul (np_diag s_local) Vt_local) local_svds of
                            Inl e \<Rightarrow> (Some e, self1)
                          | Inr weighted_Vt \<Rightarrow>
                              (case np_vstack weighted_Vt of
                                 Inl e \<Rightarrow> (Some e, self1)
                               | Inr combined_Vt \<Rightarrow>
                                   (case svd combined_Vt of
                                      Inl e \<Rightarrow> (Some e, self1)
                                    | Inr (U_global, s_global, Vt_global) \<Rightarrow>
    let s_global' = (case d_n_components self of
                       None \<Rightarrow> s_global | Some k \<Rightarrow> py_slice_to k s_global);
        Vt_global' = (case d_n_components self of
                        None \<Rightarrow> Vt_global | Some k \<Rightarrow> slice_rows k Vt_global);
        self2 = self1\<lparr>d_s := Some s_global', d_Vt := Some Vt_global'\<rparr> in
    (case np_vstack X_centered of
       Inl e \<Rightarrow> (Some e, self2)
     | Inr X_full \<Rightarrow>
         (case np_matmul X_full (np_T Vt_global') of
            Inl e \<Rightarrow> (Some e, self2)
          | Inr P \<Rightarrow>
              (case np_bin_mv (/) P s_global' of
                 Inl e \<Rightarrow> (Some e, self2)
               | Inr U \<Rightarrow> (None, self2\<lparr>d_U := Some U\<rparr>)))))))))))"

definition dsvd_transform :: "real mat \<Rightarrow> dsvd \<Rightarrow> pyerror + npfloat mat" where
  "dsvd_transform X0 self =
     (let X = np_asarray X0 in
      case sub_sentinel X (d_mean self) of
        Inl e \<Rightarrow> Inl e
      | Inr X_centered \<Rightarrow>
          (case d_Vt self of
             None \<Rightarrow> Inl AttributeError
           | Some Vt \<Rightarrow> np_matmul X_centered (np_T Vt)))"

definition dsvd_inverse_transform :: "npfloat mat \<Rightarrow> dsvd \<Rightarrow> pyerror + npfloat mat" where
  "dsvd_inverse_transform X_transformed self =
     (case d_Vt self of
        None \<Rightarrow> Inl (ValueError ''matmul: Input operand 1 does not have enough dimensions'')
      | Some Vt \<Rightarrow>
          (case np_matmul X_transformed Vt of
             Inl e \<Rightarrow> Inl e
           | Inr P \<Rightarrow> add_sentinel P (d_mean self)))"

definition dsvd_explained_variance_ratio :: "dsvd \<Rightarrow> pyerror + npfloat list" where
  "dsvd_explained_variance_ratio self =
     (case d_s self of
        None \<Rightarrow> Inl (ValueError ''Model has not been fitted yet.'')
      | Some s \<Rightarrow>
          let variance = map (\<lambda>x. x * x) s;
              total_variance = sum_list variance in
          Inr (map (\<lambda>v. v / total_variance) variance))"

section \<open>SVDEmbeddingRegression\<close>

text \<open>
  The target \<open>y\<close> is a vector of shape \<open>(n,)\<close> or a matrix of shape \<open>(n, t)\<close>;
  its mean is a scalar in the first case and a vector in the second.
\<close>

datatype 'a target = TVec "'a list" | TMat "'a mat"

datatype ymean = YScalar npfloat | YVec "npfloat list"

type_synonym lstsq_fn = "npfloat mat \<Rightarrow> npfloat target \<Rightarrow> pyerror + npfloat target"

record ser =
  r_n_components :: "int option"
  r_U :: "npfloat mat option"
  r_s :: "npfloat list option"
  r_Vt :: "npfloat mat option"
  r_weights :: "npfloat target option"
  r_mean_X :: "npfloat list option"
  r_mean_y :: "ymean option"

definition ser_init :: "int option \<Rightarrow> ser" where
  "ser_init n_components =
     \<lparr>r_n_components = n_components, r_U = None, r_s = None, r_Vt = None,
      r_weights = None, r_mean_X = None, r_mean_y = None\<rparr>"

text \<open>\<open>np.mean(X, axis=0)\<close> and \<open>np.mean(y)\<close>: the sum over the count, NaN on no rows.\<close>

definition np_mean0 :: "npfloat mat \<Rightarrow> npfloat list" where
  "np_mean0 X = map (\<lambda>x. x / of_count (nrows X)) (np_sum0 X)"

definition np_mean1 :: "npfloat list \<Rightarrow> npfloat" where
  "np_mean1 y = sum_list y / of_count (length y)"

definition target_rows :: "'a target \<Rightarrow> nat" where
  "target_rows y = (case y of TVec v \<Rightarrow> length v | TMat Y \<Rightarrow> nrows Y)"

definition center_target :: "npfloat target \<Rightarrow> ymean \<Rightarrow> pyerror + npfloat target" where
  "center_target y m =
     (case (y, m) of
        (TVec v, YScalar c) \<Rightarrow> Inr (TVec (map (\<lambda>x. x - c) v))
      | (TVec v, YVec w) \<Rightarrow>
          (case np_bin1 (-) v w of Inl e \<Rightarrow> Inl e | Inr u \<Rightarrow> Inr (TVec u))
      | (TMat Y, YScalar c) \<Rightarrow> Inr (TMat (map_mat (\<lambda>x. x - c) Y))
      | (TMat Y, YVec w) \<Rightarrow>
          (case np_bin_mv (-) Y w of Inl e \<Rightarrow> Inl e | Inr Z \<Rightarrow> Inr (TMat Z)))"

text \<open>
  \<open>np.linalg.lstsq(a, b)\<close> raises LinAlgError (incompatible dimensions) when the row
  counts of \<open>a\<close> and \<open>b\<close> differ. On a system without rows it returns the zero
  solution, of the shape that the columns of \<open>a\<close> and \<open>b\<close> give. Otherwise it runs
  its solver.
\<close>

definition lstsq_zero :: "nat \<Rightarrow> npfloat target \<Rightarrow> npfloat target" where
  "lstsq_zero n b =
     (case b of
        TVec v \<Rightarrow> TVec (replicate n (Fin 0))
      | TMat B \<Rightarrow> TMat (Mat (ncols B) (replicate n (replicate (ncols B) (Fin 0)))))"

definition np_lstsq :: "lstsq_fn \<Rightarrow> npfloat mat \<Rightarrow> npfloat target \<Rightarrow> pyerror + npfloat target" where
  "np_lstsq solve a b =
     (if nrows a \<noteq> target_rows b then Inl LinAlgError
      else if nrows a = 0 then Inr (lstsq_zero (ncols a) b)
      else solve a b)"

definition ser_fit ::
  "svd_fn \<Rightarrow> lstsq_fn \<Rightarrow> real mat \<Rightarrow> real target \<Rightarrow> ser \<Rightarrow> pyerror option \<times> ser" where
  "ser_fit svd solve X0 y0 self =
     (let X = np_asarray X0;
          y = map_target Fin y0;
          self1 = self\<lparr>r_mean_X := Some (np_mean0 X)\<rparr>;
          mean_y = (case y of TVec v \<Rightarrow> YScalar (np_mean1 v) | TMat Y \<Rightarrow> YVec (np_mean0 Y));
          self2 = self1\<lparr>r_mean_y := Some mean_y\<rparr> in
      case sub_sentinel X (r_mean_X self2) of
        Inl e \<Rightarrow> (Some e, self2)
      | Inr X_centered \<Rightarrow>
          (case center_target y mean_y of
             Inl e \<Rightarrow> (Some e, self2)
           | Inr y_centered \<Rightarrow>
               (case svd X_centered of
                  Inl e \<Rightarrow> (Some e, self2)
                | Inr (U, s, Vt) \<Rightarrow>
                    let U' = (case r_n_components self of
                                None \<Rightarrow> U | Some k \<Rightarrow> slice_cols k U);
                        s' = (case r_n_components self of
                                None \<Rightarrow> s | Some k \<Rightarrow> py_slice_to k s);
                        Vt' = (case r_n_components self of
                                 None \<Rightarrow> Vt | Some k \<Rightarrow> slice_rows k Vt);
                        self3 = self2\<lparr>r_U := Some U', r_s := Some s', r_Vt := Some Vt'\<rparr> in
                    (case np_matmul U' (np_diag s') of
                       Inl e \<Rightarrow> (Some e, self3)
                     | Inr P \<Rightarrow>
                         (case np_matmul P Vt' of
                            Inl e \<Rightarrow> (Some e, self3)
                          | Inr X_reduced0 \<Rightarrow>
                              (case np_matmul X_centered (np_T Vt') of
                                 Inl e \<Rightarrow> (Some e, self3)
                               | Inr X_reduced \<Rightarrow>
                                   (case np_lstsq solve X_reduced y_centered of
                                      Inl e \<Rightarrow> (Some e, self3)
                                    | Inr w \<Rightarrow> (None, self3\<lparr>r_weights := Some w\<rparr>))))))))"

definition ser_transform :: "real mat \<Rightarrow> ser \<Rightarrow> pyerror + npfloat mat" where
  "ser_transform X0 self =
     (let X = np_asarray X0 in
      case sub_sentinel X (r_mean_X self) of
        Inl e \<Rightarrow> Inl e
      | Inr X_centered \<Rightarrow>
          (case r_Vt self of
             None \<Rightarrow> Inl AttributeError
           | Some Vt \<Rightarrow> np_matmul X_centered (np_T Vt)))"

section \<open>Reference notions of the specification\<close>

text \<open>
  The explained-variance ratio in the specification's words: the squared singular values
  divided by their sum, over the reals.
\<close>

definition variance_ratio :: "real list \<Rightarrow> real list" where
  "variance_ratio rs = map (\<lambda>r. r * r / sum_list (map (\<lambda>r. r * r) rs)) rs"

fun in_unit_interval :: "npfloat \<Rightarrow> bool" where
  "in_unit_interval (Fin a) = (0 \<le> a \<and> a \<le> 1)"
| "in_unit_interval _ = False"

text \<open>
  Finite matrices given by their entries, the column sums and the raw scatter entries
  \<open>\<Sum>r. r\<^sub>j r\<^sub>k\<close> of a list of real rows.
\<close>

definition fin_mat :: "nat \<Rightarrow> nat \<Rightarrow> (nat \<Rightarrow> nat \<Rightarrow> real) \<Rightarrow> npfloat mat" where
  "fin_mat n p f = Mat p (map (\<lambda>i. map (\<lambda>j. Fin (f i j)) [0..<p]) [0..<n])"

definition gram :: "real list list \<Rightarrow> nat \<Rightarrow> nat \<Rightarrow> real" where
  "gram Rs j k = sum_list (map (\<lambda>r. r ! j * r ! k) Rs)"

definition col_sum :: "real list list \<Rightarrow> nat \<Rightarrow> real" where
  "col_sum Rs j = sum_list (map (\<lambda>r. r ! j) Rs)"

text \<open>
  The scatter matrix of the pooled data in the specification's words: stack the
  partitions row-wise, centre by the mean of the stacked rows, and form
  \<open>Xc.T @ Xc\<close>.
\<close>

definition pooled_centered_scatter :: "real mat list \<Rightarrow> pyerror + npfloat mat" where
  "pooled_centered_scatter parts =
     (case np_vstack (map np_asarray parts) of
        Inl e \<Rightarrow> Inl e
      | Inr X_full \<Rightarrow>
          (case np_bin_mv (-) X_full (np_mean0 X_full) of
             Inl e \<Rightarrow> Inl e
           | Inr X_centered \<Rightarrow> Inr (matmul (np_T X_centered) X_centered)))"

text \<open>
  The naive alternative the specification rules out for the global mean: the plain
  average of the per-partition means.
\<close>

definition average_of_partition_means :: "nat \<Rightarrow> real mat list \<Rightarrow> real list" where
  "average_of_partition_means p parts =
     map (\<lambda>j. sum_list (map (\<lambda>X. col_sum (rows X) j / real (nrows X)) parts)
               / real (length parts)) [0..<p]"

text \<open>
  Singular values as the specification wants them: finite, non-negative, in descending
  order. The two contracts say what the estimators rely on from their collaborators: the
  SVD routine returns singular values of that kind (on an array with \<open>nan\<close> or
  \<open>inf\<close> \<open>scipy.linalg.svd\<close> raises), and the eigendecomposition of a matrix of
  finite entries returns finite eigenvalues, in any order (on other matrices
  \<open>np.linalg.eigh\<close> may return \<open>nan\<close>).
\<close>

fun fin_nonneg :: "npfloat \<Rightarrow> bool" where
  "fin_nonneg (Fin a) = (0 \<le> a)"
| "fin_nonneg _ = False"

fun fin_ge :: "npfloat \<Rightarrow> npfloat \<Rightarrow> bool" where
  "fin_ge (Fin a) (Fin b) = (b \<le> a)"
| "fin_ge _ _ = False"

definition descending_nonneg :: "npfloat list \<Rightarrow> bool" where
  "descending_nonneg s = (list_all fin_nonneg s \<and> sorted_wrt fin_ge s)"



text \<open>
  The reconstruction error of the round trip, \<open>np.sum((X - inverse_transform(transform(X))) ** 2)\<close>.
\<close>

definition roundtrip_error :: "real mat \<Rightarrow> dsvd \<Rightarrow> pyerror + npfloat" where
  "roundtrip_error X self =
     (case dsvd_transform X self of
        Inl e \<Rightarrow> Inl e
      | Inr T \<Rightarrow>
          (case dsvd_inverse_transform T self of
             Inl e \<Rightarrow> Inl e
           | Inr R \<Rightarrow>
               (case np_bin2 (-) (np_asarray X) R of
                  Inl e \<Rightarrow> Inl e
                | Inr D \<Rightarrow> Inr (sum_list (map (\<lambda>r. sum_list (map (\<lambda>d. d * d) r)) (rows D))))))"

text \<open>
  What the estimators rely on from the right factor of
  \<open>scipy.linalg.svd(A, full_matrices=False)\<close>: it is finite, has the columns of \<open>A\<close>
  and at most as many rows, its rows are orthonormal, and when it is square it is
  orthogonal (its columns are orthonormal too).
\<close>

definition orthonormal_rows :: "real mat \<Rightarrow> bool" where
  "orthonormal_rows V =
     list_all (\<lambda>i. list_all (\<lambda>l. dot (rows V ! i) (rows V ! l) = (if i = l then 1 else 0))
                  [0..<nrows V]) [0..<nrows V]"

definition orthonormal_cols :: "real mat \<Rightarrow> bool" where
  "orthonormal_cols V =
     list_all (\<lambda>j. list_all (\<lambda>k. dot (col V j) (col V k) = (if j = k then 1 else 0))
                  [0..<ncols V]) [0..<ncols V]"

definition svd_factor_contract :: "svd_fn \<Rightarrow> bool" where
  "svd_factor_contract svd =
     (\<forall>A U s Vt. svd A = Inr (U, s, Vt) \<longrightarrow>
        (\<exists>V. Vt = np_asarray V \<and> wf_mat V \<and> ncols V = ncols A \<and> nrows V \<le> ncols V
             \<and> orthonormal_rows V \<and> (nrows V = ncols V \<longrightarrow> orthonormal_cols V)))"

text \<open>
  The whole contract of \<open>scipy.linalg.svd(A, full_matrices=False)\<close> on a matrix
  \<open>A\<close> of shape \<open>(n, p)\<close>: with \<open>r = min(n, p)\<close>, the factors are finite and of
  shapes \<open>(n, r)\<close>, \<open>(r,)\<close> and \<open>(r, p)\<close>, the singular values are non-negative
  and descending, the columns of \<open>U\<close> and the rows of \<open>Vt\<close> are orthonormal (a square
  factor is orthogonal), and \<open>U @ diag(s) @ Vt\<close> is \<open>A\<close>. The contract does not say
  which sign a singular vector has.
\<close>

definition all_finite :: "npfloat mat \<Rightarrow> bool" where
  "all_finite A = list_all (list_all is_Fin) (rows A)"

definition real_mat :: "npfloat mat \<Rightarrow> real mat" where
  "real_mat A = map_mat the_Fin A"

definition is_thin_svd :: "npfloat mat \<Rightarrow> npfloat mat \<times> npfloat list \<times> npfloat mat \<Rightarrow> bool" where
  "is_thin_svd A F =
     (case F of (U, s, Vt) \<Rightarrow>
        wf_mat U \<and> wf_mat Vt \<and> all_finite U \<and> all_finite Vt
        \<and> length s = min (nrows A) (ncols A)
        \<and> nrows U = nrows A \<and> ncols U = length s
        \<and> nrows Vt = length s \<and> ncols Vt = ncols A
        \<and> descending_nonneg s
        \<and> orthonormal_cols (real_mat U)
        \<and> (nrows U = ncols U \<longrightarrow> orthonormal_rows (real_mat U))
        \<and> orthonormal_rows (real_mat Vt)
        \<and> (nrows Vt = ncols Vt \<longrightarrow> orthonormal_cols (real_mat Vt))
        \<and> matmul (matmul U (np_diag s)) Vt = A)"

definition svd_thin_contract :: "svd_fn \<Rightarrow> bool" where
  "svd_thin_contract svd = (\<forall>A F. svd A = Inr F \<longrightarrow> is_thin_svd A F)"

section \<open>Concrete collaborators\<close>

text \<open>
  The eigendecomposition of a finite symmetric \<open>1 \<times> 1\<close> matrix \<open>[[a]]\<close> is the
  eigenvalue \<open>a\<close> with the eigenvector \<open>[1]\<close>; this instance of \<open>eigh\<close> runs the
  federated estimator on single-feature data.
\<close>

definition eigh_1x1 :: eigh_fn where
  "eigh_1x1 A =
     (case rows A of [[Fin a]] \<Rightarrow> Inr ([Fin a], Mat 1 [[Fin 1]]) | _ \<Rightarrow> Inl LinAlgError)"

text \<open>
  An SVD of a finite one-column matrix with column \<open>a\<close>: the singular value is the
  norm of \<open>a\<close>, the right singular vector is \<open>[1]\<close> and the left one is \<open>a\<close>
  normalised (the first unit vector when \<open>a = 0\<close>). On a matrix of shape \<open>(0, 1)\<close>
  it returns, as \<open>scipy.linalg.svd\<close> does on an array without elements, the empty
  factors of shapes \<open>(0, 0)\<close>, \<open>(0,)\<close> and \<open>(0, 1)\<close>. The least-squares solution
  for a one-column system \<open>a w = b\<close> is \<open>(a \<cdot> b) / (a \<cdot> a)\<close>, and 0 when
  \<open>a = 0\<close>. These instances run the estimators on single-feature data.
\<close>

definition svd_1col :: svd_fn where
  "svd_1col A =
     (if ncols A = 1 \<and> wf_mat A \<and> list_all (list_all is_Fin) (rows A)
      then
        if nrows A = 0 then Inr (Mat 0 [], [], Mat 1 [])
        else
          let a = map (\<lambda>r. the_Fin (r ! 0)) (rows A);
              n = sqrt (sum_list (map (\<lambda>x. x * x) a))
          in Inr (Mat 1 (if n = 0
                         then map (\<lambda>i. [Fin (if i = 0 then 1 else 0)]) [0..<length a]
                         else map (\<lambda>x. [Fin (x / n)]) a),
                  [Fin n],
                  Mat 1 [[Fin 1]])
      else Inl LinAlgError)"

definition lstsq_1col :: lstsq_fn where
  "lstsq_1col A b =
     (case b of
        TVec v \<Rightarrow>
          if ncols A = 1 \<and> wf_mat A \<and> list_all (list_all is_Fin) (rows A) \<and> list_all is_Fin v
          then
            let a = map (\<lambda>r. the_Fin (r ! 0)) (rows A);
                aa = sum_list (map (\<lambda>x. x * x) a);
                ab = sum_list (map2 (*) a (map the_Fin v))
            in Inr (TVec [Fin (if aa = 0 then 0 else ab / aa)])
          else Inl LinAlgError
      | TMat B \<Rightarrow> Inl LinAlgError)"

text \<open>
  For data with several features the SVD routine is given by a table of decompositions:
  \<open>svd_lookup tab\<close> returns the factors that the table holds for its argument when they
  are a thin SVD of it, and raises otherwise. Whatever the table, this routine meets the
  contract above.

  \<open>svd_table_tall\<close> holds a decomposition of the centred \<open>4 \<times> 2\<close> dataset
  \<open>[[2, 11], [10, 5], [-10, -5], [-2, -11]]\<close>, with singular values 20 and 10 and right
  singular vectors \<open>-(3/5, 4/5)\<close> and \<open>(-4/5, 3/5)\<close>, and one of the weighted factor
  \<open>diag(s) @ Vt = [[-12, -16], [-8, 6]]\<close> that DistributedSVD decomposes next. The
  second decomposition has the left factor \<open>diag(-1, 1)\<close>, so its first right singular
  vector is \<open>(3/5, 4/5)\<close>: the sign a routine returns depends on the matrix it is given,
  here through the reflection that maps the first column \<open>(-12, -8)\<close> onto the first
  axis.

  \<open>svd_table_wide\<close> holds a decomposition of the centred \<open>2 \<times> 3\<close> dataset
  \<open>[[1, 0, 0], [-1, 0, 0]]\<close>, of rank 1, and one of its weighted factor.
\<close>

definition svd_lookup ::
  "(npfloat mat \<times> npfloat mat \<times> npfloat list \<times> npfloat mat) list \<Rightarrow> svd_fn" where
  "svd_lookup tab A =
     (case map_of tab A of
        None \<Rightarrow> Inl LinAlgError
      | Some F \<Rightarrow> if is_thin_svd A F then Inr F else Inl LinAlgError)"

definition svd_table_tall ::
  "(npfloat mat \<times> npfloat mat \<times> npfloat list \<times> npfloat mat) list" where
  "svd_table_tall =
     [(Mat 2 [[Fin 2, Fin 11], [Fin 10, Fin 5], [Fin (-10), Fin (-5)], [Fin (-2), Fin (-11)]],
       (Mat 2 [[Fin (-1/2), Fin (1/2)], [Fin (-1/2), Fin (-1/2)],
               [Fin (1/2), Fin (1/2)], [Fin (1/2), Fin (-1/2)]],
        [Fin 20, Fin 10],
        Mat 2 [[Fin (-3/5), Fin (-4/5)], [Fin (-4/5), Fin (3/5)]])),
      (Mat 2 [[Fin (-12), Fin (-16)], [Fin (-8), Fin 6]],
       (Mat 2 [[Fin (-1), Fin 0], [Fin 0, Fin 1]],
        [Fin 20, Fin 10],
        Mat 2 [[Fin (3/5), Fin (4/5)], [Fin (-4/5), Fin (3/5)]]))]"

definition svd_table_wide ::
  "(npfloat mat \<times> npfloat mat \<times> npfloat list \<times> npfloat mat) list" where
  "svd_table_wide =
     [(Mat 3 [[Fin 1, Fin 0, Fin 0], [Fin (-1), Fin 0, Fin 0]],
       (Mat 2 [[Fin (- (sqrt 2 / 2)), Fin (sqrt 2 / 2)], [Fin (sqrt 2 / 2), Fin (sqrt 2 / 2)]],
        [Fin (sqrt 2), Fin 0],
        Mat 3 [[Fin (-1), Fin 0, Fin 0], [Fin 0, Fin 1, Fin 0]])),
      (Mat 3 [[Fin (- sqrt 2), Fin 0, Fin 0], [Fin 0, Fin 0, Fin 0]],
       (Mat 2 [[Fin 1, Fin 0], [Fin 0, Fin 1]],
        [Fin (sqrt 2), Fin 0],
        Mat 3 [[Fin (-1), Fin 0, Fin 0], [Fin 0, Fin 1, Fin 0]]))]"




section \<open>Evaluation rules\<close>

lemmas np_defs =
  np_asarray_def nrows_def col_def np_sum0_def np_T_def np_outer_def np_diag_def dot_def
  matmul_def np_matmul_def bc_len_def bc_row_def np_bin1_def np_bin_mv_def np_bin2_def
  np_vstack_def py_slice_to_def slice_rows_def slice_cols_def np_argsort_def take_cols_def
  sub_sentinel_def add_sentinel_def of_count_def zero_npfloat_def minus_npfloat_def
  np_mean0_def np_mean1_def target_rows_def center_target_def np_lstsq_def

lemma sum_list_Fin: "sum_list (map (\<lambda>x. Fin (f x)) xs) = Fin (sum_list (map f xs))"
  by (induction xs) (simp_all add: zero_npfloat_def)

section \<open>The array layer on finite data\<close>

lemma ncols_asarray [simp]: "ncols (np_asarray X) = ncols X"
  by (cases X) (simp add: np_asarray_def)

lemma rows_asarray [simp]: "rows (np_asarray X) = map (map Fin) (rows X)"
  by (cases X) (simp add: np_asarray_def)

lemma nrows_asarray [simp]: "nrows (np_asarray X) = nrows X"
  by (simp add: nrows_def)

lemma sum_list_Fin_cong:
  "(\<And>x. x \<in> set xs \<Longrightarrow> g x = Fin (f x)) \<Longrightarrow> sum_list (map g xs) = Fin (sum_list (map f xs))"
  by (induction xs) (simp_all add: zero_npfloat_def)

lemma fin_mat_cong:
  "(\<And>i j. i < n \<Longrightarrow> j < p \<Longrightarrow> f i j = g i j) \<Longrightarrow> fin_mat n p f = fin_mat n p g"
  by (simp add: fin_mat_def)

lemma gram_entries:
  "matmul (np_T X) X =
     Mat (ncols X) (map (\<lambda>j. map (\<lambda>k. sum_list (map (\<lambda>r. r ! j * r ! k) (rows X)))
        [0..<ncols X]) [0..<ncols X])"
  by (simp add: matmul_def np_T_def col_def dot_def map2_map_map o_def)

lemma asarray_gram:
  assumes "wf_mat X"
  shows "matmul (np_T (np_asarray X)) (np_asarray X) = fin_mat (ncols X) (ncols X) (gram (rows X))"
proof -
  have "sum_list (map (\<lambda>r. r ! j * r ! k) (map (map Fin) (rows X))) = Fin (gram (rows X) j k)"
    if "j < ncols X" "k < ncols X" for j k
    unfolding gram_def map_map o_def
    by (rule sum_list_Fin_cong) (use assms that in \<open>auto simp: wf_mat_def list_all_iff\<close>)
  then show ?thesis
    by (simp add: gram_entries fin_mat_def)
qed

lemma asarray_sum0:
  assumes "wf_mat X"
  shows "np_sum0 (np_asarray X) = map (\<lambda>j. Fin (col_sum (rows X) j)) [0..<ncols X]"
proof -
  have "sum_list (map (\<lambda>r. r ! j) (map (map Fin) (rows X))) = Fin (col_sum (rows X) j)"
    if "j < ncols X" for j
    unfolding col_sum_def map_map o_def
    by (rule sum_list_Fin_cong) (use assms that in \<open>auto simp: wf_mat_def list_all_iff\<close>)
  then show ?thesis
    by (simp add: np_sum0_def col_def)
qed

lemma Fin_minus [simp]: "Fin a - Fin b = Fin (a - b)"
  by (simp add: minus_npfloat_def)

lemma col_sum_append: "col_sum (A @ B) j = col_sum A j + col_sum B j"
  by (simp add: col_sum_def)

lemma col_sum_concat: "col_sum (concat Rss) j = sum_list (map (\<lambda>Rs. col_sum Rs j) Rss)"
  by (induction Rss) (simp_all add: col_sum_append, simp add: col_sum_def)

lemma gram_append: "gram (A @ B) j k = gram A j k + gram B j k"
  by (simp add: gram_def)

lemma gram_concat: "gram (concat Rss) j k = sum_list (map (\<lambda>Rs. gram Rs j k) Rss)"
  by (induction Rss) (simp_all add: gram_append, simp add: gram_def)

lemma fold_sum_vec:
  "fold_err (np_bin1 (+)) (map (\<lambda>j. Fin (f j)) [0..<p]) (map (\<lambda>X. map (\<lambda>j. Fin (g X j)) [0..<p]) Xs)
     = Inr (map (\<lambda>j. Fin (f j + sum_list (map (\<lambda>X. g X j) Xs))) [0..<p])"
proof (induction Xs arbitrary: f)
  case Nil
  then show ?case by simp
next
  case (Cons X Xs)
  have "np_bin1 (+) (map (\<lambda>j. Fin (f j)) [0..<p]) (map (\<lambda>j. Fin (g X j)) [0..<p])
          = Inr (map (\<lambda>j. Fin (f j + g X j)) [0..<p])"
    by (simp add: np_bin1_def bc_len_def bc_row_def map2_map_map)
  then show ?case
    using Cons.IH[of "\<lambda>j. f j + g X j"] by (simp add: add.assoc)
qed

lemma nrows_fin_mat [simp]: "nrows (fin_mat n p f) = n"
  by (simp add: fin_mat_def nrows_def)

lemma ncols_fin_mat [simp]: "ncols (fin_mat n p f) = p"
  by (simp add: fin_mat_def)

lemma np_bin2_fin_mat_add:
  "np_bin2 (+) (fin_mat n p f) (fin_mat n p g) = Inr (fin_mat n p (\<lambda>i j. f i j + g i j))"
  by (simp add: np_bin2_def bc_len_def) (simp add: fin_mat_def bc_row_def map2_map_map)

lemma np_bin2_fin_mat_sub:
  "np_bin2 (-) (fin_mat n p f) (fin_mat n p g) = Inr (fin_mat n p (\<lambda>i j. f i j - g i j))"
  by (simp add: np_bin2_def bc_len_def) (simp add: fin_mat_def bc_row_def map2_map_map)

lemma fold_sum_mat:
  "fold_err (np_bin2 (+)) (fin_mat n p f) (map (\<lambda>X. fin_mat n p (g X)) Xs)
     = Inr (fin_mat n p (\<lambda>i j. f i j + sum_list (map (\<lambda>X. g X i j) Xs)))"
proof (induction Xs arbitrary: f)
  case Nil
  then show ?case by simp
next
  case (Cons X Xs)
  show ?case
    using Cons.IH[of "\<lambda>i j. f i j + g X i j"] by (simp add: np_bin2_fin_mat_add add.assoc)
qed

lemma local_stats_Fin:
  assumes "wf_mat X" "ncols X = p"
  shows "local_sum (compute_local_statistics X) = map (\<lambda>j. Fin (col_sum (rows X) j)) [0..<p]"
    and "local_cov (compute_local_statistics X) = fin_mat p p (gram (rows X))"
    and "n_samples (compute_local_statistics X) = nrows X"
  using assms by (simp_all add: compute_local_statistics_def Let_def asarray_sum0 asarray_gram)

lemma total_rows_concat: "sum_list (map nrows parts) = length (concat (map rows parts))"
  by (induction parts) (simp_all add: nrows_def)

lemma aggregate_Fin:
  assumes wf: "list_all wf_mat parts"
    and cols: "list_all (\<lambda>X. ncols X = p) parts"
    and pos: "0 < sum_list (map nrows parts)"
  shows "aggregate_statistics (map compute_local_statistics parts) =
     Inr \<lparr>mean = map (\<lambda>j. Fin (col_sum (concat (map rows parts)) j
                                  / real (length (concat (map rows parts))))) [0..<p],
          cov = fin_mat p p (\<lambda>j k. gram (concat (map rows parts)) j k
                  - real (length (concat (map rows parts)))
                    * (col_sum (concat (map rows parts)) j / real (length (concat (map rows parts)))
                       * (col_sum (concat (map rows parts)) k / real (length (concat (map rows parts)))))),
          total_n = length (concat (map rows parts))\<rparr>"
proof -
  let ?Rs = "concat (map rows parts)"
  let ?N = "length ?Rs"
  from pos obtain X Xs where parts: "parts = X # Xs"
    by (cases parts) auto
  have N: "sum_list (map n_samples (map compute_local_statistics parts)) = ?N"
    using wf cols
    by (simp add: total_rows_concat[symmetric] o_def compute_local_statistics_def Let_def)
  have Npos: "?N \<noteq> 0"
    using pos by (simp add: total_rows_concat)
  have sums: "map local_sum (map compute_local_statistics Xs)
                = map (\<lambda>X. map (\<lambda>j. Fin (col_sum (rows X) j)) [0..<p]) Xs"
    using wf cols by (auto simp: parts list_all_iff local_stats_Fin)
  have covs: "map local_cov (map compute_local_statistics Xs)
                = map (\<lambda>X. fin_mat p p (gram (rows X))) Xs"
    using wf cols by (auto simp: parts list_all_iff local_stats_Fin)
  have X: "wf_mat X" "ncols X = p"
    using wf cols by (simp_all add: parts)
  have gsum: "fold_err (np_bin1 (+)) (local_sum (compute_local_statistics X))
                 (map local_sum (map compute_local_statistics Xs))
              = Inr (map (\<lambda>j. Fin (col_sum ?Rs j)) [0..<p])"
    unfolding sums local_stats_Fin[OF X] fold_sum_vec
    by (simp add: parts col_sum_append col_sum_concat o_def)
  have gcov: "fold_err (np_bin2 (+)) (local_cov (compute_local_statistics X))
                 (map local_cov (map compute_local_statistics Xs))
              = Inr (fin_mat p p (gram ?Rs))"
    unfolding covs local_stats_Fin[OF X] fold_sum_mat
    by (simp add: parts) (rule fin_mat_cong, simp add: gram_append gram_concat o_def)
  have mean: "map (\<lambda>x. x / of_count ?N) (map (\<lambda>j. Fin (col_sum ?Rs j)) [0..<p])
                = map (\<lambda>j. Fin (col_sum ?Rs j / real ?N)) [0..<p]"
    using Npos by (simp add: of_count_def)
  have outer: "map_mat (\<lambda>x. of_count ?N * x)
                 (np_outer (map (\<lambda>j. Fin (col_sum ?Rs j / real ?N)) [0..<p])
                           (map (\<lambda>j. Fin (col_sum ?Rs j / real ?N)) [0..<p]))
               = fin_mat p p (\<lambda>j k. real ?N * (col_sum ?Rs j / real ?N * (col_sum ?Rs k / real ?N)))"
    by (simp add: np_outer_def fin_mat_def of_count_def o_def)
  have ms: "map compute_local_statistics parts
              = compute_local_statistics X # map compute_local_statistics Xs"
    by (simp add: parts)
  show ?thesis
    apply (simp only: aggregate_statistics_def Let_def N)
    apply (simp only: ms list.case gsum sum.case mean gcov outer np_bin2_fin_mat_sub)
    done
qed

lemma asarray_Mat: "np_asarray (Mat p Rs) = Mat p (map (map Fin) Rs)"
  by (simp add: np_asarray_def)

lemma vstack_asarray:
  assumes "parts \<noteq> []" "list_all (\<lambda>X. ncols X = p) parts"
  shows "np_vstack (map np_asarray parts) = Inr (np_asarray (Mat p (concat (map rows parts))))"
proof -
  obtain X Xs where parts: "parts = X # Xs"
    using assms(1) by (cases parts) auto
  have "concat (map rows (map np_asarray parts)) = map (map Fin) (concat (map rows parts))"
    by (simp add: map_concat o_def)
  then show ?thesis
    using assms(2) by (simp add: np_vstack_def parts list_all_iff asarray_Mat)
qed

lemma mean0_asarray:
  assumes "wf_mat X" "nrows X \<noteq> 0"
  shows "np_mean0 (np_asarray X)
           = map (\<lambda>j. Fin (col_sum (rows X) j / real (nrows X))) [0..<ncols X]"
  using assms by (simp add: np_mean0_def asarray_sum0 of_count_def)

lemma row_as_index: "length r = p \<Longrightarrow> map Fin r = map (\<lambda>j. Fin (r ! j)) [0..<p]"
  by (auto intro: nth_equalityI)

lemma center_asarray:
  assumes "wf_mat X"
  shows "np_bin_mv (-) (np_asarray X) (map (\<lambda>j. Fin (m j)) [0..<ncols X])
           = Inr (np_asarray (Mat (ncols X)
                (map (\<lambda>r. map (\<lambda>j. r ! j - m j) [0..<ncols X]) (rows X))))"
proof -
  have "bc_row (-) (map Fin r) (map (\<lambda>j. Fin (m j)) [0..<ncols X])
          = map Fin (map (\<lambda>j. r ! j - m j) [0..<ncols X])"
    if "r \<in> set (rows X)" for r
  proof -
    have len: "length r = ncols X"
      using assms that by (simp add: wf_mat_def list_all_iff)
    show ?thesis
      unfolding row_as_index[OF len]
      by (simp add: bc_row_def map2_map_map o_def)
  qed
  then show ?thesis
    by (simp add: np_bin_mv_def bc_len_def asarray_Mat)
qed

lemma gram_centered:
  fixes Rs :: "real list list"
  assumes "Rs \<noteq> []"
  shows "sum_list (map (\<lambda>r. (r ! j - col_sum Rs j / real (length Rs))
                            * (r ! k - col_sum Rs k / real (length Rs))) Rs)
         = gram Rs j k - real (length Rs)
             * (col_sum Rs j / real (length Rs) * (col_sum Rs k / real (length Rs)))"
proof -
  let ?N = "real (length Rs)"
  let ?mj = "col_sum Rs j / ?N" and ?mk = "col_sum Rs k / ?N"
  have N: "?N \<noteq> 0" using assms by simp
  have "sum_list (map (\<lambda>r. (r ! j - ?mj) * (r ! k - ?mk)) Rs)
        = sum_list (map (\<lambda>r. r ! j * r ! k - ?mj * r ! k - (?mk * r ! j - ?mj * ?mk)) Rs)"
    by (simp add: algebra_simps)
  also have "\<dots> = gram Rs j k - ?mj * col_sum Rs k - (?mk * col_sum Rs j - ?mj * (?N * ?mk))"
    by (simp only: sum_list_subtractf sum_list_const_mult sum_list_triv gram_def col_sum_def)
  also have "\<dots> = gram Rs j k - ?N * (?mj * ?mk)"
    using N by (simp add: field_simps)
  finally show ?thesis .
qed

lemma wf_concat_rows:
  assumes "list_all wf_mat parts" "list_all (\<lambda>X. ncols X = p) parts"
  shows "wf_mat (Mat p (concat (map rows parts)))"
  using assms by (auto simp: wf_mat_def list_all_iff)

lemma pooled_scatter_Fin:
  assumes wf: "list_all wf_mat parts"
    and cols: "list_all (\<lambda>X. ncols X = p) parts"
    and pos: "0 < sum_list (map nrows parts)"
  shows "pooled_centered_scatter parts =
     Inr (fin_mat p p (\<lambda>j k. gram (concat (map rows parts)) j k
                  - real (length (concat (map rows parts)))
                    * (col_sum (concat (map rows parts)) j / real (length (concat (map rows parts)))
                       * (col_sum (concat (map rows parts)) k / real (length (concat (map rows parts)))))))"
proof -
  let ?Rs = "concat (map rows parts)"
  let ?N = "real (length ?Rs)"
  let ?m = "\<lambda>j. col_sum ?Rs j / ?N"
  let ?Rc = "map (\<lambda>r. map (\<lambda>j. r ! j - ?m j) [0..<p]) ?Rs"
  have ne: "parts \<noteq> []" using pos by auto
  have Rs_ne: "?Rs \<noteq> []"
    using pos by (simp add: total_rows_concat)
  have wfR: "wf_mat (Mat p ?Rs)"
    by (rule wf_concat_rows[OF wf cols])
  have stack: "np_vstack (map np_asarray parts) = Inr (np_asarray (Mat p ?Rs))"
    by (rule vstack_asarray[OF ne cols])
  have mean: "np_mean0 (np_asarray (Mat p ?Rs)) = map (\<lambda>j. Fin (?m j)) [0..<p]"
    using mean0_asarray[OF wfR] Rs_ne by (simp add: nrows_def)
  have center: "np_bin_mv (-) (np_asarray (Mat p ?Rs)) (map (\<lambda>j. Fin (?m j)) [0..<p])
                  = Inr (np_asarray (Mat p ?Rc))"
    using center_asarray[OF wfR, of ?m] by simp
  have wfC: "wf_mat (Mat p ?Rc)"
    by (simp add: wf_mat_def list_all_iff)
  have scatter: "matmul (np_T (np_asarray (Mat p ?Rc))) (np_asarray (Mat p ?Rc))
                   = fin_mat p p (gram ?Rc)"
    using asarray_gram[OF wfC] by simp
  have "fin_mat p p (gram ?Rc)
          = fin_mat p p (\<lambda>j k. gram ?Rs j k - ?N * (?m j * ?m k))"
  proof (rule fin_mat_cong)
    fix j k assume "j < p" "k < p"
    then have "gram ?Rc j k = sum_list (map (\<lambda>r. (r ! j - ?m j) * (r ! k - ?m k)) ?Rs)"
      by (simp add: gram_def o_def)
    then show "gram ?Rc j k = gram ?Rs j k - ?N * (?m j * ?m k)"
      using gram_centered[OF Rs_ne, of j k] by simp
  qed
  then show ?thesis
    by (simp only: pooled_centered_scatter_def stack sum.case mean center scatter)
qed

lemma dsvd_fit_mean:
  assumes "fold_err (np_bin1 (+)) (np_sum0 (np_asarray X)) (map np_sum0 (map np_asarray Xs)) = Inr cs"
  shows "d_mean (snd (dsvd_fit svd (X # Xs) self))
           = Some (map (\<lambda>x. x / of_count (sum_list (map nrows (X # Xs)))) cs)"
  using assms
  by (auto simp: dsvd_fit_def Let_def o_def split: sum.splits prod.splits)

lemma column_sums_Fin:
  assumes wf: "list_all wf_mat (X # Xs)"
    and cols: "list_all (\<lambda>X. ncols X = p) (X # Xs)"
  shows "fold_err (np_bin1 (+)) (np_sum0 (np_asarray X)) (map np_sum0 (map np_asarray Xs))
           = Inr (map (\<lambda>j. Fin (sum_list (map (\<lambda>X. col_sum (rows X) j) (X # Xs)))) [0..<p])"
proof -
  have rest: "map np_sum0 (map np_asarray Xs)
                = map (\<lambda>X. map (\<lambda>j. Fin (col_sum (rows X) j)) [0..<p]) Xs"
    using wf cols by (auto simp: list_all_iff asarray_sum0)
  have first: "np_sum0 (np_asarray X) = map (\<lambda>j. Fin (col_sum (rows X) j)) [0..<p]"
    using wf cols by (simp add: asarray_sum0)
  show ?thesis
    unfolding rest first fold_sum_vec by simp
qed

lemma div_count_Fin:
  "n \<noteq> 0 \<Longrightarrow> map (\<lambda>x. x / of_count n) (map (\<lambda>j. Fin (f j)) js)
                = map (\<lambda>j. Fin (f j / real n)) js"
  by (simp add: of_count_def)



lemma sum_squares_nonneg: "0 \<le> sum_list (map (\<lambda>x. x * x) (xs :: real list))"
  by (rule sum_list_nonneg) auto








lemma ser_example_run:
  "ser_fit svd_1col lstsq_1col (Mat 1 [[1], [1], [-1], [-1]]) (TVec [1, 3, -1, -3]) (ser_init None)
     = (None,
        \<lparr>r_n_components = None,
         r_U = Some (Mat 1 [[Fin (1/2)], [Fin (1/2)], [Fin (-1/2)], [Fin (-1/2)]]),
         r_s = Some [Fin 2],
         r_Vt = Some (Mat 1 [[Fin 1]]),
         r_weights = Some (TVec [Fin 2]),
         r_mean_X = Some [Fin 0],
         r_mean_y = Some (YScalar (Fin 0))\<rparr>)"
  by (simp add: ser_fit_def ser_init_def svd_1col_def lstsq_1col_def wf_mat_def Let_def np_defs)

lemma nrows_np_bin_mv: "np_bin_mv f A v = Inr B \<Longrightarrow> nrows B = nrows A"
  by (auto simp: np_bin_mv_def nrows_def split: option.splits)

lemma nrows_np_matmul: "np_matmul A B = Inr C \<Longrightarrow> nrows C = nrows A"
  by (auto simp: np_matmul_def matmul_def nrows_def split: if_splits)

lemma nrows_sub_sentinel_Some: "sub_sentinel A (Some v) = Inr B \<Longrightarrow> nrows B = nrows A"
  by (simp add: sub_sentinel_def nrows_np_bin_mv)

lemma target_rows_map [simp]: "target_rows (map_target f y) = target_rows y"
  by (cases y) (simp_all add: target_rows_def nrows_def mat.map_sel)

lemma target_rows_center:
  "center_target y (case y of TVec v \<Rightarrow> YScalar (np_mean1 v) | TMat Y \<Rightarrow> YVec (np_mean0 Y)) = Inr y'
     \<Longrightarrow> target_rows y' = target_rows y"
  by (cases y) (auto simp: center_target_def target_rows_def dest: nrows_np_bin_mv split: sum.splits)

lemma py_slice_to_all: "int (length xs) \<le> k \<Longrightarrow> py_slice_to k xs = xs"
  by (simp add: py_slice_to_def)

lemma slice_rows_all: "int (nrows A) \<le> k \<Longrightarrow> slice_rows k A = A"
  by (cases A) (simp add: slice_rows_def nrows_def py_slice_to_all)

lemma slice_cols_all: "wf_mat A \<Longrightarrow> int (ncols A) \<le> k \<Longrightarrow> slice_cols k A = A"
  by (cases A) (simp add: slice_cols_def wf_mat_def list_all_iff py_slice_to_all map_idI)

lemma ser_fit_row_mismatch:
  assumes "nrows X \<noteq> target_rows y"
  shows "fst (ser_fit svd solve X y self) \<noteq> None"
proof -
  have "np_lstsq solve A b = Inl LinAlgError" if "nrows A = nrows X" "target_rows b = target_rows y" for A b
    using that assms by (simp add: np_lstsq_def)
  then show ?thesis
    by (auto simp: ser_fit_def Let_def simp del: map_map split: sum.splits prod.splits
        dest!: nrows_np_matmul nrows_sub_sentinel_Some target_rows_center)
qed

lemma length_np_mean0 [simp]: "length (np_mean0 A) = ncols A"
  by (simp add: np_mean0_def np_sum0_def)

lemma center_by_own_mean:
  "sub_sentinel A (Some (np_mean0 A))
     = Inr (Mat (ncols A) (map (\<lambda>r. bc_row (-) r (np_mean0 A)) (rows A)))"
  by (simp add: sub_sentinel_def np_bin_mv_def bc_len_def)

lemma center_target_own_mean:
  "\<exists>y'. center_target y (case y of TVec v \<Rightarrow> YScalar (np_mean1 v) | TMat Y \<Rightarrow> YVec (np_mean0 Y))
           = Inr y'"
  by (cases y) (simp_all add: center_target_def np_bin_mv_def bc_len_def)

lemma mean0_no_rows: "nrows A = 0 \<Longrightarrow> np_mean0 A = replicate (ncols A) NaN"
  by (simp add: np_mean0_def np_sum0_def col_def nrows_def of_count_def zero_npfloat_def
      map_replicate_const)

lemma ser_fit_no_rows:
  assumes "nrows X = 0" and "target_rows y = 0"
    and "svd (Mat (ncols X) []) = Inr (Mat 0 [], [], Mat (ncols X) [])"
  shows "fst (ser_fit svd solve X y self) = None"
    and "r_mean_X (snd (ser_fit svd solve X y self)) = Some (replicate (ncols X) NaN)"
    and "r_s (snd (ser_fit svd solve X y self)) = Some []"
proof -
  have rows: "rows (np_asarray X) = []"
    using assms(1) by (simp add: nrows_def)
  then have c: "sub_sentinel (np_asarray X) (Some (np_mean0 (np_asarray X))) = Inr (Mat (ncols X) [])"
    by (simp add: center_by_own_mean)
  have m: "np_mean0 (np_asarray X) = replicate (ncols X) NaN"
    using mean0_no_rows[of "np_asarray X"] assms(1) by simp
  obtain y' where
    y': "center_target (map_target Fin y)
       (case map_target Fin y of TVec v \<Rightarrow> YScalar (np_mean1 v) | TMat Y \<Rightarrow> YVec (np_mean0 Y))
     = Inr y'"
    using center_target_own_mean by blast
  then have "target_rows y' = 0"
    using target_rows_center[OF y'] assms(2) by simp
  then have l: "np_lstsq solve (Mat 0 []) y' = Inr (lstsq_zero 0 y')"
    by (simp add: np_lstsq_def nrows_def)
  have run: "ser_fit svd solve X y self
               = (None, self\<lparr>r_mean_X := Some (np_mean0 (np_asarray X)),
                   r_mean_y := Some (case map_target Fin y of
                                        TVec v \<Rightarrow> YScalar (np_mean1 v) | TMat Y \<Rightarrow> YVec (np_mean0 Y)),
                   r_U := Some (Mat 0 []), r_s := Some [], r_Vt := Some (Mat (ncols X) []),
                   r_weights := Some (lstsq_zero 0 y')\<rparr>)"
    using assms(3) c y' l
    by (simp add: ser_fit_def Let_def slice_cols_def slice_rows_def py_slice_to_def np_diag_def
        np_matmul_def matmul_def np_T_def nrows_def split: option.splits)
  show "fst (ser_fit svd solve X y self) = None"
    by (simp add: run)
  show "r_mean_X (snd (ser_fit svd solve X y self)) = Some (replicate (ncols X) NaN)"
    by (simp add: run m)
  show "r_s (snd (ser_fit svd solve X y self)) = Some []"
    by (simp add: run)
qed

lemma ser_fit_oversize:
  assumes "sub_sentinel (np_asarray X) (Some (np_mean0 (np_asarray X))) = Inr Xc"
    and "svd Xc = Inr (U, s, Vt)"
    and "wf_mat U" and "int (ncols U) \<le> k" and "int (length s) \<le> k" and "int (nrows Vt) \<le> k"
  shows "ser_fit svd solve X y (self\<lparr>r_n_components := Some k\<rparr>)
           = (fst (ser_fit svd solve X y (self\<lparr>r_n_components := None\<rparr>)),
              (snd (ser_fit svd solve X y (self\<lparr>r_n_components := None\<rparr>)))
                \<lparr>r_n_components := Some k\<rparr>)"
  using assms
  by (simp add: ser_fit_def Let_def slice_cols_all slice_rows_all py_slice_to_all
      split: sum.splits prod.splits)

lemma ser_centered_example:
  "sub_sentinel (np_asarray (Mat 1 [[1], [1], [-1], [-1]]))
     (Some (np_mean0 (np_asarray (Mat 1 [[1], [1], [-1], [-1]]))))
   = Inr (Mat 1 [[Fin 1], [Fin 1], [Fin (-1)], [Fin (-1)]])"
  by (simp add: np_defs)

lemma svd_1col_example:
  "svd_1col (Mat 1 [[Fin 1], [Fin 1], [Fin (-1)], [Fin (-1)]])
     = Inr (Mat 1 [[Fin (1/2)], [Fin (1/2)], [Fin (-1/2)], [Fin (-1/2)]], [Fin 2], Mat 1 [[Fin 1]])"
  by (simp add: svd_1col_def wf_mat_def Let_def nrows_def)

lemma dsvd_fit_mean_Fin:
  assumes "list_all wf_mat parts"
    and "list_all (\<lambda>X. ncols X = p) parts"
    and "0 < sum_list (map nrows parts)"
  shows "d_mean (snd (dsvd_fit svd parts self))
           = Some (map (\<lambda>j. Fin (sum_list (map (\<lambda>X. col_sum (rows X) j) parts)
                                   / real (sum_list (map nrows parts)))) [0..<p])"
proof -
  from assms(3) obtain X Xs where parts: "parts = X # Xs"
    by (cases parts) auto
  have N: "sum_list (map nrows parts) \<noteq> 0"
    using assms(3) by (simp only: neq0_conv)
  show ?thesis
    using dsvd_fit_mean[OF column_sums_Fin[OF assms(1,2)[unfolded parts]], of svd self]
    by (simp only: parts[symmetric] div_count_Fin[OF N])
qed

lemma sum_list_upt_index: "sum_list (map f [0..<n]) = (\<Sum>i<n. f i)"
  by (simp add: interv_sum_list_conv_sum_set_nat atLeast0LessThan)

lemma back_projection_full:
  fixes y :: "nat \<Rightarrow> real" and v :: "nat \<Rightarrow> nat \<Rightarrow> real" and r p :: nat
  assumes cols: "\<And>d k. d < p \<Longrightarrow> k < p \<Longrightarrow> (\<Sum>i<r. v i d * v i k) = (if d = k then 1 else 0)"
    and j: "j < p"
  shows "(\<Sum>i<r. (\<Sum>d<p. y d * v i d) * v i j) = y j"
proof -
  have "(\<Sum>i<r. (\<Sum>d<p. y d * v i d) * v i j) = (\<Sum>i<r. \<Sum>d<p. y d * (v i d * v i j))"
    by (simp add: sum_distrib_right mult.assoc)
  also have "\<dots> = (\<Sum>d<p. \<Sum>i<r. y d * (v i d * v i j))"
    by (rule sum.swap)
  also have "\<dots> = (\<Sum>d<p. y d * (\<Sum>i<r. v i d * v i j))"
    by (simp add: sum_distrib_left)
  also have "\<dots> = (\<Sum>d<p. if d = j then y d else 0)"
    by (rule sum.cong) (simp_all add: cols j)
  also have "\<dots> = y j"
    using j by (simp only: sum.delta finite_lessThan lessThan_iff if_True)
  finally show ?thesis .
qed

lemma residual_norm:
  fixes y :: "nat \<Rightarrow> real" and v :: "nat \<Rightarrow> nat \<Rightarrow> real" and r p :: nat
  assumes orth: "\<And>i l. i < r \<Longrightarrow> l < r \<Longrightarrow> (\<Sum>j<p. v i j * v l j) = (if i = l then 1 else 0)"
  shows "(\<Sum>j<p. (y j - (\<Sum>i<r. (\<Sum>d<p. y d * v i d) * v i j)) ^ 2)
           = (\<Sum>j<p. (y j) ^ 2) - (\<Sum>i<r. (\<Sum>d<p. y d * v i d) ^ 2)"
proof -
  define t where "t i = (\<Sum>d<p. y d * v i d)" for i
  define b where "b j = (\<Sum>i<r. t i * v i j)" for j
  have yb: "(\<Sum>j<p. y j * b j) = (\<Sum>i<r. (t i) ^ 2)"
  proof -
    have "(\<Sum>j<p. y j * b j) = (\<Sum>j<p. \<Sum>i<r. t i * (y j * v i j))"
      by (simp add: b_def sum_distrib_left mult.left_commute)
    also have "\<dots> = (\<Sum>i<r. \<Sum>j<p. t i * (y j * v i j))"
      by (rule sum.swap)
    also have "\<dots> = (\<Sum>i<r. t i * (\<Sum>j<p. y j * v i j))"
      by (simp only: sum_distrib_left)
    also have "\<dots> = (\<Sum>i<r. (t i) ^ 2)"
      by (simp only: power2_eq_square t_def)
    finally show ?thesis .
  qed
  have bb: "(\<Sum>j<p. (b j) ^ 2) = (\<Sum>i<r. (t i) ^ 2)"
  proof -
    have "(\<Sum>j<p. (b j) ^ 2)
            = (\<Sum>j<p. \<Sum>i<r. \<Sum>l<r. (t i * t l) * (v i j * v l j))"
      by (simp only: b_def power2_eq_square sum_product) (simp only: mult_ac)
    also have "\<dots> = (\<Sum>i<r. \<Sum>j<p. \<Sum>l<r. (t i * t l) * (v i j * v l j))"
      by (rule sum.swap)
    also have "\<dots> = (\<Sum>i<r. \<Sum>l<r. \<Sum>j<p. (t i * t l) * (v i j * v l j))"
      by (rule sum.cong[OF refl]) (rule sum.swap)
    also have "\<dots> = (\<Sum>i<r. \<Sum>l<r. (t i * t l) * (\<Sum>j<p. v i j * v l j))"
      by (simp only: sum_distrib_left)
    also have "\<dots> = (\<Sum>i<r. \<Sum>l<r. if i = l then t i * t l else 0)"
      by (intro sum.cong refl) (simp add: orth)
    also have "\<dots> = (\<Sum>i<r. (t i) ^ 2)"
    proof (rule sum.cong[OF refl])
      fix i assume i: "i \<in> {..<r}"
      have "(\<Sum>l<r. if i = l then t i * t l else 0) = (if i \<in> {..<r} then t i * t i else 0)"
        by (rule sum.delta') simp
      with i show "(\<Sum>l<r. if i = l then t i * t l else 0) = (t i) ^ 2"
        by (simp only: if_True power2_eq_square)
    qed
    finally show ?thesis .
  qed
  have "(\<Sum>j<p. (y j - b j) ^ 2) = (\<Sum>j<p. (y j) ^ 2 - 2 * (y j * b j) + (b j) ^ 2)"
    by (rule sum.cong) (simp_all only: power2_diff mult.assoc)
  also have "\<dots> = (\<Sum>j<p. (y j) ^ 2) - 2 * (\<Sum>j<p. y j * b j) + (\<Sum>j<p. (b j) ^ 2)"
    by (simp only: sum.distrib sum_subtractf sum_distrib_left)
  also have "\<dots> = (\<Sum>j<p. (y j) ^ 2) - (\<Sum>i<r. (t i) ^ 2)"
    by (simp add: yb bb)
  finally show ?thesis
    by (simp only: b_def t_def)
qed

lemma asarray_fin_mat:
  assumes "wf_mat X"
  shows "np_asarray X = fin_mat (nrows X) (ncols X) (\<lambda>i j. rows X ! i ! j)"
proof -
  have "map (map Fin) (rows X)
          = map (\<lambda>i. map (\<lambda>j. Fin (rows X ! i ! j)) [0..<ncols X]) [0..<length (rows X)]"
    using assms
    by (intro nth_equalityI) (auto simp: wf_mat_def list_all_iff row_as_index)
  then show ?thesis
    by (cases X) (simp add: asarray_Mat fin_mat_def nrows_def)
qed

lemma rows_fin_mat: "rows (fin_mat n p f) = map (\<lambda>i. map (\<lambda>j. Fin (f i j)) [0..<p]) [0..<n]"
  by (simp add: fin_mat_def)

lemma col_fin_mat: "j < p \<Longrightarrow> col (fin_mat n p f) j = map (\<lambda>i. Fin (f i j)) [0..<n]"
  by (simp add: col_def fin_mat_def)

lemma np_T_fin_mat: "np_T (fin_mat n p f) = fin_mat p n (\<lambda>j i. f i j)"
  by (simp add: np_T_def fin_mat_def nrows_def col_fin_mat[unfolded fin_mat_def] cong: map_cong)

lemma dot_Fin_index:
  "dot (map (\<lambda>d. Fin (a d)) [0..<p]) (map (\<lambda>d. Fin (b d)) [0..<p]) = Fin (\<Sum>d<p. a d * b d)"
  by (simp add: dot_def map2_map_map sum_list_Fin sum_list_upt_index)

lemma matmul_fin_mat:
  "matmul (fin_mat n p f) (fin_mat p q g) = fin_mat n q (\<lambda>i l. \<Sum>d<p. f i d * g d l)"
  by (simp add: matmul_def rows_fin_mat col_fin_mat dot_Fin_index fin_mat_def[of n q] cong: map_cong)

lemma np_matmul_fin_mat:
  "np_matmul (fin_mat n p f) (fin_mat p q g) = Inr (fin_mat n q (\<lambda>i l. \<Sum>d<p. f i d * g d l))"
  by (simp add: np_matmul_def matmul_fin_mat)

lemma np_bin_mv_sub_fin_mat:
  "np_bin_mv (-) (fin_mat n p f) (map (\<lambda>j. Fin (m j)) [0..<p])
     = Inr (fin_mat n p (\<lambda>i j. f i j - m j))"
  by (simp add: np_bin_mv_def bc_len_def fin_mat_def bc_row_def map2_map_map)

lemma np_bin_mv_add_fin_mat:
  "np_bin_mv (+) (fin_mat n p f) (map (\<lambda>j. Fin (m j)) [0..<p])
     = Inr (fin_mat n p (\<lambda>i j. f i j + m j))"
  by (simp add: np_bin_mv_def bc_len_def fin_mat_def bc_row_def map2_map_map)

lemma sum_squares_fin_mat:
  "sum_list (map (\<lambda>r. sum_list (map (\<lambda>d. d * d) r)) (rows (fin_mat n p f)))
     = Fin (\<Sum>i<n. \<Sum>j<p. (f i j) ^ 2)"
  by (simp add: rows_fin_mat o_def sum_list_Fin sum_list_upt_index power2_eq_square)

lemma slice_rows_fin_mat:
  "slice_rows (int k) (fin_mat r p v) = fin_mat (min k r) p v"
  by (cases "k \<le> r") (simp_all add: slice_rows_def py_slice_to_def fin_mat_def take_map)

lemma sum_list_index: "sum_list (map f xs) = (\<Sum>i<length xs. f (xs ! i))"
proof -
  have "sum_list (map f xs) = (\<Sum>i = 0..<length (map f xs). map f xs ! i)"
    by (rule sum_list_sum_nth)
  then show ?thesis
    by (simp add: atLeast0LessThan)
qed

lemma dot_index:
  fixes a b :: "real list"
  assumes "length a = p" "length b = p"
  shows "dot a b = (\<Sum>d<p. a ! d * b ! d)"
proof -
  have "dot a b = sum_list (map (\<lambda>(x, y). x * y) (zip a b))"
    by (simp add: dot_def)
  also have "\<dots> = (\<Sum>i<length (zip a b). (\<lambda>(x, y). x * y) (zip a b ! i))"
    by (rule sum_list_index)
  also have "\<dots> = (\<Sum>d<p. a ! d * b ! d)"
    using assms by simp
  finally show ?thesis .
qed

lemma orthonormal_rows_index:
  assumes "wf_mat V" "orthonormal_rows V" "i < nrows V" "l < nrows V"
  shows "(\<Sum>j<ncols V. rows V ! i ! j * rows V ! l ! j) = (if i = l then 1 else 0)"
proof -
  have len: "length (rows V ! i) = ncols V" "length (rows V ! l) = ncols V"
    using assms(1,3,4) by (simp_all add: wf_mat_def list_all_iff nrows_def)
  have "dot (rows V ! i) (rows V ! l) = (if i = l then 1 else 0)"
    using assms(2-4) by (simp add: orthonormal_rows_def list_all_iff)
  then show ?thesis
    by (simp only: dot_index[OF len])
qed

lemma orthonormal_cols_index:
  assumes "orthonormal_cols V" "j < ncols V" "k < ncols V"
  shows "(\<Sum>i<nrows V. rows V ! i ! j * rows V ! i ! k) = (if j = k then 1 else 0)"
proof -
  have "dot (col V j) (col V k) = (if j = k then 1 else 0)"
    using assms by (simp add: orthonormal_cols_def list_all_iff)
  moreover have "dot (col V j) (col V k) = (\<Sum>i<nrows V. col V j ! i * col V k ! i)"
    by (rule dot_index) (simp_all add: col_def nrows_def)
  ultimately show ?thesis
    by (simp add: col_def nrows_def)
qed

lemma dsvd_transform_fin:
  assumes "d_mean self = Some (map (\<lambda>j. Fin (m j)) [0..<p])"
    and "d_Vt self = Some (fin_mat r p v)"
    and "wf_mat X" and "ncols X = p"
  shows "dsvd_transform X self
           = Inr (fin_mat (nrows X) r (\<lambda>i l. \<Sum>d<p. (rows X ! i ! d - m d) * v l d))"
  using assms
  by (simp add: dsvd_transform_def sub_sentinel_def asarray_fin_mat np_bin_mv_sub_fin_mat
      np_T_fin_mat np_matmul_fin_mat)

lemma dsvd_inverse_transform_fin:
  assumes "d_mean self = Some (map (\<lambda>j. Fin (m j)) [0..<p])"
    and "d_Vt self = Some (fin_mat r p v)"
  shows "dsvd_inverse_transform (fin_mat n r t) self
           = Inr (fin_mat n p (\<lambda>i j. (\<Sum>l<r. t i l * v l j) + m j))"
  using assms
  by (simp add: dsvd_inverse_transform_def add_sentinel_def np_matmul_fin_mat
      np_bin_mv_add_fin_mat)

lemma roundtrip_error_fin:
  assumes "d_mean self = Some (map (\<lambda>j. Fin (m j)) [0..<p])"
    and "d_Vt self = Some (fin_mat r p v)"
    and "wf_mat X" and "ncols X = p"
  shows "roundtrip_error X self
           = Inr (Fin (\<Sum>i<nrows X. \<Sum>j<p.
                (rows X ! i ! j
                  - ((\<Sum>l<r. (\<Sum>d<p. (rows X ! i ! d - m d) * v l d) * v l j) + m j)) ^ 2))"
  using assms(3,4)
  by (simp add: roundtrip_error_def dsvd_transform_fin[OF assms]
      dsvd_inverse_transform_fin[OF assms(1,2)] asarray_fin_mat np_bin2_fin_mat_sub
      sum_squares_fin_mat)

lemma roundtrip_exact_fin:
  fixes v :: "nat \<Rightarrow> nat \<Rightarrow> real"
  assumes mean: "d_mean self = Some (map (\<lambda>j. Fin (m j)) [0..<p])"
    and Vt: "d_Vt self = Some (fin_mat r p v)"
    and X: "wf_mat X" "ncols X = p"
    and cols: "\<And>d k. d < p \<Longrightarrow> k < p \<Longrightarrow> (\<Sum>l<r. v l d * v l k) = (if d = k then 1 else 0)"
  shows "\<exists>T. dsvd_transform X self = Inr T \<and> dsvd_inverse_transform T self = Inr (np_asarray X)"
proof -
  let ?T = "fin_mat (nrows X) r (\<lambda>i l. \<Sum>d<p. (rows X ! i ! d - m d) * v l d)"
  have "fin_mat (nrows X) p
          (\<lambda>i j. (\<Sum>l<r. (\<Sum>d<p. (rows X ! i ! d - m d) * v l d) * v l j) + m j)
        = fin_mat (nrows X) p (\<lambda>i j. rows X ! i ! j)"
    by (rule fin_mat_cong)
       (simp add: back_projection_full[where y = "\<lambda>d. rows X ! i ! d - m d" for i, OF cols])
  then have "dsvd_inverse_transform ?T self = Inr (np_asarray X)"
    using X by (simp add: dsvd_inverse_transform_fin[OF mean Vt] asarray_fin_mat)
  then show ?thesis
    using dsvd_transform_fin[OF mean Vt X] by blast
qed

lemma roundtrip_error_orthonormal:
  fixes v :: "nat \<Rightarrow> nat \<Rightarrow> real"
  assumes mean: "d_mean self = Some (map (\<lambda>j. Fin (m j)) [0..<p])"
    and Vt: "d_Vt self = Some (fin_mat r p v)"
    and X: "wf_mat X" "ncols X = p"
    and orth: "\<And>i l. i < r \<Longrightarrow> l < r \<Longrightarrow> (\<Sum>j<p. v i j * v l j) = (if i = l then 1 else 0)"
  shows "roundtrip_error X self
           = Inr (Fin (\<Sum>i<nrows X. (\<Sum>j<p. (rows X ! i ! j - m j) ^ 2)
                        - (\<Sum>l<r. (\<Sum>d<p. (rows X ! i ! d - m d) * v l d) ^ 2)))"
proof -
  have "(\<Sum>j<p. (rows X ! i ! j
                  - ((\<Sum>l<r. (\<Sum>d<p. (rows X ! i ! d - m d) * v l d) * v l j) + m j)) ^ 2)
        = (\<Sum>j<p. (rows X ! i ! j - m j) ^ 2)
            - (\<Sum>l<r. (\<Sum>d<p. (rows X ! i ! d - m d) * v l d) ^ 2)" for i
    using residual_norm[where y = "\<lambda>d. rows X ! i ! d - m d" and v = v and r = r and p = p, OF orth]
    by (simp add: algebra_simps)
  then show ?thesis
    by (simp add: roundtrip_error_fin[OF mean Vt X])
qed

lemma map_err_Inr_set:
  "map_err f xs = Inr ys \<Longrightarrow> y \<in> set ys \<Longrightarrow> \<exists>x\<in>set xs. f x = Inr y"
proof (induction xs arbitrary: ys)
  case Nil
  then show ?case by simp
next
  case (Cons x xs)
  then show ?case
    by (auto split: sum.splits)
qed

lemma dsvd_fit_success:
  assumes "dsvd_fit svd parts self = (None, m)"
  shows "\<exists>X Xs cs Xc L W C U s Vt. parts = X # Xs
     \<and> fold_err (np_bin1 (+)) (np_sum0 (np_asarray X)) (map np_sum0 (map np_asarray Xs)) = Inr cs
     \<and> map_err (\<lambda>A. sub_sentinel A
            (Some (map (\<lambda>x. x / of_count (sum_list (map nrows (map np_asarray parts)))) cs)))
          (map np_asarray parts) = Inr Xc
     \<and> map_err svd (filter (\<lambda>A. 0 < nrows A) Xc) = Inr L
     \<and> map_err (\<lambda>(U_local, s_local, Vt_local). np_matmul (np_diag s_local) Vt_local) L = Inr W
     \<and> np_vstack W = Inr C \<and> svd C = Inr (U, s, Vt)
     \<and> d_mean m = Some (map (\<lambda>x. x / of_count (sum_list (map nrows (map np_asarray parts)))) cs)
     \<and> d_Vt m = Some (case d_n_components self of None \<Rightarrow> Vt | Some k \<Rightarrow> slice_rows k Vt)"
proof (cases parts)
  case Nil
  with assms show ?thesis by (simp add: dsvd_fit_def)
next
  case (Cons X Xs)
  show ?thesis
    using assms unfolding Cons dsvd_fit_def Let_def
    apply (simp only: list.map list.case)
    apply (auto simp del: map_err.simps map_map list.map sum_list.Cons filter.simps
        split: sum.splits prod.splits)
    done
qed

lemma ncols_np_bin_mv_same:
  "np_bin_mv f A v = Inr B \<Longrightarrow> length v = ncols A \<Longrightarrow> ncols B = ncols A"
  by (auto simp: np_bin_mv_def bc_len_def split: option.splits if_splits)

lemma ncols_np_matmul: "np_matmul A B = Inr C \<Longrightarrow> ncols C = ncols B"
  by (auto simp: np_matmul_def matmul_def split: if_splits)

lemma ncols_np_vstack:
  "np_vstack As = Inr C \<Longrightarrow> (\<And>A. A \<in> set As \<Longrightarrow> ncols A = p) \<Longrightarrow> ncols C = p"
  by (cases As) (auto simp: np_vstack_def split: if_splits)

lemma dsvd_fit_pair:
  assumes fit1: "dsvd_fit svd parts self1 = (None, m1)"
    and fit2: "dsvd_fit svd parts self2 = (None, m2)"
    and contract: "svd_factor_contract svd"
    and wf: "list_all wf_mat parts"
    and cols: "list_all (\<lambda>X. ncols X = p) parts"
    and pos: "0 < sum_list (map nrows parts)"
  shows "\<exists>V. wf_mat V \<and> ncols V = p \<and> nrows V \<le> p \<and> orthonormal_rows V
           \<and> (nrows V = p \<longrightarrow> orthonormal_cols V)
           \<and> d_Vt m1 = Some (case d_n_components self1 of
                               None \<Rightarrow> np_asarray V | Some k \<Rightarrow> slice_rows k (np_asarray V))
           \<and> d_Vt m2 = Some (case d_n_components self2 of
                               None \<Rightarrow> np_asarray V | Some k \<Rightarrow> slice_rows k (np_asarray V))
           \<and> d_mean m1 = Some (map (\<lambda>j. Fin (sum_list (map (\<lambda>X. col_sum (rows X) j) parts)
                                   / real (sum_list (map nrows parts)))) [0..<p])
           \<and> d_mean m2 = d_mean m1"
proof -
  let ?mu = "map (\<lambda>j. Fin (sum_list (map (\<lambda>X. col_sum (rows X) j) parts)
                                   / real (sum_list (map nrows parts)))) [0..<p]"
  have mean1: "d_mean m1 = Some ?mu"
    using dsvd_fit_mean_Fin[OF wf cols pos, of svd self1] fit1 by simp
  have mean2: "d_mean m2 = Some ?mu"
    using dsvd_fit_mean_Fin[OF wf cols pos, of svd self2] fit2 by simp
  from dsvd_fit_success[OF fit1] obtain X Xs cs Xc L W C U s Vt where
    parts: "parts = X # Xs"
    and c1: "map_err (\<lambda>A. sub_sentinel A
               (Some (map (\<lambda>x. x / of_count (sum_list (map nrows (map np_asarray parts)))) cs)))
             (map np_asarray parts) = Inr Xc"
    and c2: "map_err svd (filter (\<lambda>A. 0 < nrows A) Xc) = Inr L"
    and c3: "map_err (\<lambda>(U_local, s_local, Vt_local). np_matmul (np_diag s_local) Vt_local) L = Inr W"
    and c4: "np_vstack W = Inr C" and c5: "svd C = Inr (U, s, Vt)"
    and m1: "d_mean m1 = Some (map (\<lambda>x. x / of_count (sum_list (map nrows (map np_asarray parts)))) cs)"
    and v1: "d_Vt m1 = Some (case d_n_components self1 of None \<Rightarrow> Vt | Some k \<Rightarrow> slice_rows k Vt)"
    by blast
  from dsvd_fit_success[OF fit2] obtain X' Xs' cs' Xc' L' W' C' U' s' Vt' where
    parts': "parts = X' # Xs'"
    and c1': "map_err (\<lambda>A. sub_sentinel A
               (Some (map (\<lambda>x. x / of_count (sum_list (map nrows (map np_asarray parts)))) cs')))
             (map np_asarray parts) = Inr Xc'"
    and c2': "map_err svd (filter (\<lambda>A. 0 < nrows A) Xc') = Inr L'"
    and c3': "map_err (\<lambda>(U_local, s_local, Vt_local). np_matmul (np_diag s_local) Vt_local) L' = Inr W'"
    and c4': "np_vstack W' = Inr C'" and c5': "svd C' = Inr (U', s', Vt')"
    and m2: "d_mean m2 = Some (map (\<lambda>x. x / of_count (sum_list (map nrows (map np_asarray parts)))) cs')"
    and v2: "d_Vt m2 = Some (case d_n_components self2 of None \<Rightarrow> Vt' | Some k \<Rightarrow> slice_rows k Vt')"
    by blast
  have mu: "map (\<lambda>x. x / of_count (sum_list (map nrows (map np_asarray parts)))) cs = ?mu"
    using m1 mean1 by simp
  have mu': "map (\<lambda>x. x / of_count (sum_list (map nrows (map np_asarray parts)))) cs' = ?mu"
    using m2 mean2 by simp
  have "Xc' = Xc" using c1 c1' by (simp only: mu mu') simp
  then have "L' = L" using c2 c2' by simp
  then have "W' = W" using c3 c3' by simp
  then have "C' = C" using c4 c4' by simp
  then have Vt': "Vt' = Vt" using c5 c5' by simp
  have Xc_cols: "ncols A = p" if "A \<in> set Xc" for A
  proof -
    from map_err_Inr_set[OF c1 that] obtain B where
      B: "B \<in> set (map np_asarray parts)" and sub: "sub_sentinel B (Some ?mu) = Inr A"
      by (auto simp only: mu)
    from B cols have "ncols B = p"
      by (auto simp: list_all_iff)
    with sub show ?thesis
      by (auto simp: sub_sentinel_def dest: ncols_np_bin_mv_same)
  qed
  have L_cols: "ncols Vl = p" if "(Ul, sl, Vl) \<in> set L" for Ul sl Vl
  proof -
    from map_err_Inr_set[OF c2 that] obtain A where
      "A \<in> set Xc" and "svd A = Inr (Ul, sl, Vl)"
      by auto
    with contract Xc_cols show ?thesis
      by (fastforce simp: svd_factor_contract_def)
  qed
  have W_cols: "ncols w = p" if "w \<in> set W" for w
  proof -
    from map_err_Inr_set[OF c3 that] obtain Ul sl Vl where
      "(Ul, sl, Vl) \<in> set L" and "np_matmul (np_diag sl) Vl = Inr w"
      by auto
    then show ?thesis
      using L_cols ncols_np_matmul by fastforce
  qed
  have "ncols C = p"
    by (rule ncols_np_vstack[OF c4 W_cols])
  with contract c5 obtain V where
    "Vt = np_asarray V" "wf_mat V" "ncols V = p" "nrows V \<le> p" "orthonormal_rows V"
    "nrows V = p \<longrightarrow> orthonormal_cols V"
    by (fastforce simp: svd_factor_contract_def)
  then show ?thesis
    using v1 v2 mean1 mean2 Vt' by auto
qed

lemma py_slice_to_full: "length (py_slice_to k xs) = length xs \<Longrightarrow> py_slice_to k xs = xs"
proof (cases "0 \<le> k")
  case True
  assume "length (py_slice_to k xs) = length xs"
  with True show ?thesis
    by (auto simp: py_slice_to_def min_def split: if_splits)
next
  case False
  assume len: "length (py_slice_to k xs) = length xs"
  from len False have "length xs \<le> length xs - nat (- k)"
    by (simp add: py_slice_to_def)
  moreover from False have "1 \<le> nat (- k)"
    by arith
  ultimately have "length xs = 0"
    by arith
  then have "xs = []"
    by simp
  then show ?thesis
    by (simp add: py_slice_to_def)
qed

lemma slice_rows_fin_mat_int:
  "0 \<le> k \<Longrightarrow> slice_rows k (fin_mat r p v) = fin_mat (min (nat k) r) p v"
  using slice_rows_fin_mat[of "nat k" r p v] by simp

lemma slice_rows_full: "nrows (slice_rows k A) = nrows A \<Longrightarrow> slice_rows k A = A"
  by (cases A) (simp add: slice_rows_def nrows_def py_slice_to_full)

lemma nrows_slice_rows_le: "nrows (slice_rows k A) \<le> nrows A"
  by (simp add: slice_rows_def nrows_def py_slice_to_def)

lemma upt_2: "[0..<2] = [0, 1]"
  by (simp add: upt_rec)

lemma upt_3: "[0..<3] = [0, 1, 2]"
  by (simp add: upt_rec)

lemma svd_lookup_contract: "svd_thin_contract (svd_lookup tab)"
  by (auto simp: svd_thin_contract_def svd_lookup_def split: option.splits if_splits)


lemma Fin_the_Fin: "is_Fin x \<Longrightarrow> Fin (the_Fin x) = x"
  by (cases x) simp_all

lemma asarray_real_mat: "all_finite A \<Longrightarrow> np_asarray (real_mat A) = A"
proof (cases A)
  case (Mat p Rs)
  assume "all_finite A"
  then have "\<forall>r\<in>set Rs. \<forall>x\<in>set r. is_Fin x"
    by (simp add: Mat all_finite_def list_all_iff)
  then have "map (map (\<lambda>x. Fin (the_Fin x))) Rs = Rs"
    by (intro map_idI) (simp_all add: Fin_the_Fin)
  then show ?thesis
    by (simp add: Mat np_asarray_def real_mat_def o_def)
qed

lemma wf_real_mat [simp]: "wf_mat (real_mat A) = wf_mat A"
  by (cases A) (simp add: wf_mat_def real_mat_def list_all_iff)

lemma ncols_real_mat [simp]: "ncols (real_mat A) = ncols A"
  by (cases A) (simp add: real_mat_def)

lemma nrows_real_mat [simp]: "nrows (real_mat A) = nrows A"
  by (cases A) (simp add: real_mat_def nrows_def)

lemma thin_factor_contract:
  assumes "svd_thin_contract svd"
  shows "svd_factor_contract svd"
  unfolding svd_factor_contract_def
proof (intro allI impI)
  fix A U s Vt
  assume "svd A = Inr (U, s, Vt)"
  with assms have t: "is_thin_svd A (U, s, Vt)"
    by (simp add: svd_thin_contract_def)
  then have "Vt = np_asarray (real_mat Vt)"
    by (simp add: is_thin_svd_def asarray_real_mat)
  moreover from t have "wf_mat (real_mat Vt)" "ncols (real_mat Vt) = ncols A"
    "nrows (real_mat Vt) \<le> ncols (real_mat Vt)" "orthonormal_rows (real_mat Vt)"
    "nrows (real_mat Vt) = ncols (real_mat Vt) \<longrightarrow> orthonormal_cols (real_mat Vt)"
    by (simp_all add: is_thin_svd_def)
  ultimately show "\<exists>V. Vt = np_asarray V \<and> wf_mat V \<and> ncols V = ncols A \<and> nrows V \<le> ncols V
             \<and> orthonormal_rows V \<and> (nrows V = ncols V \<longrightarrow> orthonormal_cols V)"
    by blast
qed





lemma dsvd_run_tall_all:
  "dsvd_fit (svd_lookup svd_table_tall) [Mat 2 [[3, 13], [11, 7], [-9, -3], [-1, -9]]] (dsvd_init None)
   = (None,
      \<lparr>d_n_components = None,
       d_U = Some (Mat 2 [[Fin (1/2), Fin (1/2)], [Fin (1/2), Fin (-1/2)],
                          [Fin (-1/2), Fin (1/2)], [Fin (-1/2), Fin (-1/2)]]),
       d_s = Some [Fin 20, Fin 10],
       d_Vt = Some (Mat 2 [[Fin (3/5), Fin (4/5)], [Fin (-4/5), Fin (3/5)]]),
       d_mean = Some [Fin 1, Fin 2]\<rparr>)"
  by code_simp

lemma dsvd_run_tall_1:
  "dsvd_fit (svd_lookup svd_table_tall) [Mat 2 [[3, 13], [11, 7], [-9, -3], [-1, -9]]]
     ((dsvd_init None)\<lparr>d_n_components := Some 1\<rparr>)
   = (None,
      \<lparr>d_n_components = Some 1,
       d_U = Some (Mat 1 [[Fin (1/2)], [Fin (1/2)], [Fin (-1/2)], [Fin (-1/2)]]),
       d_s = Some [Fin 20],
       d_Vt = Some (Mat 2 [[Fin (3/5), Fin (4/5)]]),
       d_mean = Some [Fin 1, Fin 2]\<rparr>)"
  by code_simp

lemma dsvd_run_tall_2:
  "dsvd_fit (svd_lookup svd_table_tall) [Mat 2 [[3, 13], [11, 7], [-9, -3], [-1, -9]]]
     ((dsvd_init None)\<lparr>d_n_components := Some (1 + 1)\<rparr>)
   = (None,
      \<lparr>d_n_components = Some 2,
       d_U = Some (Mat 2 [[Fin (1/2), Fin (1/2)], [Fin (1/2), Fin (-1/2)],
                          [Fin (-1/2), Fin (1/2)], [Fin (-1/2), Fin (-1/2)]]),
       d_s = Some [Fin 20, Fin 10],
       d_Vt = Some (Mat 2 [[Fin (3/5), Fin (4/5)], [Fin (-4/5), Fin (3/5)]]),
       d_mean = Some [Fin 1, Fin 2]\<rparr>)"
  by code_simp

section \<open>Explained variance ratio\<close>

lemma square_le_sum_squares:
  "r \<in> set rs \<Longrightarrow> r * r \<le> sum_list (map (\<lambda>r. r * r) rs)" for r :: real
proof (induction rs)
  case Nil
  then show ?case by simp
next
  case (Cons a rs)
  have "0 \<le> sum_list (map (\<lambda>r. r * r) rs)"
    by (rule sum_list_nonneg) auto
  moreover have "0 \<le> a * a" by simp
  ultimately show ?case using Cons by (auto intro: add_increasing add_increasing2)
qed

lemma evr_Fin:
  assumes "0 < sum_list (map (\<lambda>r. r * r) rs)"
  shows "map (\<lambda>v. v / sum_list (map (\<lambda>x. x * x) (map Fin rs))) (map (\<lambda>x. x * x) (map Fin rs))
           = map Fin (variance_ratio rs)"
  using assms by (simp add: sum_list_Fin variance_ratio_def o_def)

lemma variance_ratio_unit:
  assumes "0 < sum_list (map (\<lambda>r. r * r) rs)"
  shows "list_all in_unit_interval (map Fin (variance_ratio rs))"
proof -
  have "r * r \<le> sum_list (map (\<lambda>r. r * r) rs)" if "r \<in> set rs" for r
    using that by (rule square_le_sum_squares)
  then show ?thesis
    using assms by (auto simp: list_all_iff variance_ratio_def divide_le_eq)
qed

lemma variance_ratio_sum:
  assumes "0 < sum_list (map (\<lambda>r. r * r) rs)"
  shows "sum_list (variance_ratio rs) = 1"
proof -
  let ?S = "sum_list (map (\<lambda>r. r * r) rs)"
  have "sum_list (variance_ratio rs) = sum_list (map (\<lambda>r. r * r * (1 / ?S)) rs)"
    by (simp add: variance_ratio_def)
  also have "\<dots> = ?S * (1 / ?S)"
    by (simp only: sum_list_mult_const)
  finally show ?thesis using assms by simp
qed

text \<open>
  C6, as the code has it. \<open>explained_variance_ratio\<close> of DistributedSVD and of
  FederatedSVD returns the squared stored singular values divided by their sum. When that
  sum is positive (the stored singular values are finite and not all zero), every entry
  lies in \<open>[0, 1]\<close> and the entries sum to 1, for any number of retained components and
  so in particular at full rank. Called before \<open>fit\<close>, it raises the explicit
  ValueError.
\<close>

theorem explained_variance_ratio_positive_total:
  assumes "0 < sum_list (map (\<lambda>r. r * r) rs)"
  shows "dsvd_explained_variance_ratio (dself\<lparr>d_s := Some (map Fin rs)\<rparr>)
           = Inr (map Fin (variance_ratio rs))
       \<and> fsvd_explained_variance_ratio (fself\<lparr>f_s := Some (map Fin rs)\<rparr>)
           = Inr (map Fin (variance_ratio rs))
       \<and> list_all in_unit_interval (map Fin (variance_ratio rs))
       \<and> sum_list (map (\<lambda>x. Fin x) (variance_ratio rs)) = Fin 1
       \<and> dsvd_explained_variance_ratio (dsvd_init k)
           = Inl (ValueError ''Model has not been fitted yet.'')
       \<and> fsvd_explained_variance_ratio (fsvd_init k it)
           = Inl (ValueError ''Model has not been fitted yet.'')"
  using evr_Fin[OF assms] variance_ratio_unit[OF assms] variance_ratio_sum[OF assms]
  by (simp add: dsvd_explained_variance_ratio_def fsvd_explained_variance_ratio_def
      sum_list_Fin dsvd_init_def fsvd_init_def Let_def del: map_map)

theorem explained_variance_ratio_positive_total_witness:
  "dsvd_explained_variance_ratio ((dsvd_init None)\<lparr>d_s := Some [Fin 2, Fin 1]\<rparr>)
     = Inr [Fin (4/5), Fin (1/5)]
   \<and> fsvd_explained_variance_ratio ((fsvd_init None 10)\<lparr>f_s := Some [Fin 2, Fin 1]\<rparr>)
     = Inr [Fin (4/5), Fin (1/5)]
   \<and> list_all in_unit_interval [Fin (4/5), Fin (1/5)]"
  using explained_variance_ratio_positive_total
          [of "[2, 1]" "dsvd_init None" "fsvd_init None 10" None 10]
  by (simp add: variance_ratio_def)

text \<open>
  C6 as stated fails on constant data. FederatedSVD fitted on the single partition
  \<open>[[1], [1]]\<close> stores the singular value 0, and the ratio \<open>0 / 0\<close> is NaN, which
  does not lie in \<open>[0, 1]\<close>.
\<close>

theorem explained_variance_ratio_constant_data_nan:
  "fsvd_explained_variance_ratio
     (snd (fsvd_fit eigh_1x1 [Mat 1 [[1], [1]]] (fsvd_init None 10))) = Inr [NaN]
   \<and> \<not> in_unit_interval NaN"
  by (simp add: fsvd_explained_variance_ratio_def fsvd_fit_def fsvd_init_def eigh_1x1_def
      aggregate_statistics_def compute_local_statistics_def np_defs)

section \<open>Querying an unfitted model\<close>

text \<open>
  C7. \<open>transform\<close> has no fitted-check of its own: on a freshly constructed estimator
  and the \<open>1 \<times> 1\<close> dataset \<open>[[1]]\<close> it subtracts the unset sentinel \<open>None\<close> from
  the data and so raises TypeError, for each of the three estimators, whereas
  \<open>explained_variance_ratio\<close> of the same model raises the explicit ValueError
  "Model has not been fitted yet.".
\<close>

theorem transform_before_fit_raises_TypeError:
  "dsvd_transform (Mat 1 [[1]]) (dsvd_init k) = Inl TypeError
   \<and> fsvd_transform (Mat 1 [[1]]) (fsvd_init k it) = Inl TypeError
   \<and> ser_transform (Mat 1 [[1]]) (ser_init k) = Inl TypeError
   \<and> dsvd_explained_variance_ratio (dsvd_init k)
       = Inl (ValueError ''Model has not been fitted yet.'')
   \<and> fsvd_explained_variance_ratio (fsvd_init k it)
       = Inl (ValueError ''Model has not been fitted yet.'')"
  by (simp add: dsvd_transform_def fsvd_transform_def ser_transform_def dsvd_init_def
      fsvd_init_def ser_init_def sub_sentinel_def np_asarray_def nrows_def
      dsvd_explained_variance_ratio_def fsvd_explained_variance_ratio_def)

section \<open>The privacy record\<close>

text \<open>
  C10. \<open>get_privacy_budget\<close> returns the same dictionary whatever the state of the
  model: the method name, the description of what is shared, \<open>raw_data_shared = False\<close>
  and the qualitative privacy level, under exactly these four keys. It does so on a model
  that was never fitted, on which \<open>explained_variance_ratio\<close> raises.
\<close>

theorem get_privacy_budget_fixed:
  "fsvd_get_privacy_budget self = fsvd_get_privacy_budget (fsvd_init k it)
   \<and> fsvd_get_privacy_budget self ''method'' = Some (PyStr ''Federated Learning'')
   \<and> fsvd_get_privacy_budget self ''data_sharing''
       = Some (PyStr ''Only aggregated statistics (mean, covariance)'')
   \<and> fsvd_get_privacy_budget self ''raw_data_shared'' = Some (PyBool False)
   \<and> fsvd_get_privacy_budget self ''privacy_level''
       = Some (PyStr ''High - raw data never leaves local nodes'')
   \<and> dom (fsvd_get_privacy_budget self)
       = {''method'', ''data_sharing'', ''raw_data_shared'', ''privacy_level''}
   \<and> fsvd_explained_variance_ratio (fsvd_init k it)
       = Inl (ValueError ''Model has not been fitted yet.'')"
  by (auto simp: fsvd_get_privacy_budget_def fsvd_explained_variance_ratio_def fsvd_init_def
      split: if_splits)

section \<open>Failing fits\<close>

text \<open>
  C9, as the code has it. \<open>fit\<close> assigns its fields one at a time: the mean first, then
  the singular values and right singular vectors, and \<open>U_\<close> (for the regression,
  \<open>weights_\<close>) last. A fit that fails leaves every field assigned before the failing step
  written. What holds for every failing fit is that the field assigned last is as before
  the call; and a fit that fails before the first assignment, as DistributedSVD and
  FederatedSVD do on an empty list of partitions (ZeroDivisionError), leaves the whole
  state as before.
\<close>

theorem failing_fit_keeps_last_field:
  "(fst (dsvd_fit svd Xs dself) \<noteq> None \<longrightarrow> d_U (snd (dsvd_fit svd Xs dself)) = d_U dself)
   \<and> (fst (fsvd_fit eigh Xs fself) \<noteq> None \<longrightarrow> f_U (snd (fsvd_fit eigh Xs fself)) = f_U fself)
   \<and> (fst (ser_fit svd solve X y rself) \<noteq> None \<longrightarrow>
        r_weights (snd (ser_fit svd solve X y rself)) = r_weights rself)
   \<and> dsvd_fit svd [] dself = (Some ZeroDivisionError, dself)
   \<and> fsvd_fit eigh [] fself = (Some ZeroDivisionError, fself)"
proof (intro conjI impI)
  assume "fst (dsvd_fit svd Xs dself) \<noteq> None"
  then show "d_U (snd (dsvd_fit svd Xs dself)) = d_U dself"
    by (auto simp: dsvd_fit_def Let_def split: list.splits sum.splits prod.splits)
next
  assume "fst (fsvd_fit eigh Xs fself) \<noteq> None"
  then show "f_U (snd (fsvd_fit eigh Xs fself)) = f_U fself"
    by (auto simp: fsvd_fit_def Let_def split: sum.splits prod.splits)
next
  assume "fst (ser_fit svd solve X y rself) \<noteq> None"
  then show "r_weights (snd (ser_fit svd solve X y rself)) = r_weights rself"
    by (auto simp: ser_fit_def Let_def split: sum.splits prod.splits)
next
  show "dsvd_fit svd [] dself = (Some ZeroDivisionError, dself)"
    by (simp add: dsvd_fit_def)
next
  show "fsvd_fit eigh [] fself = (Some ZeroDivisionError, fself)"
    by (simp add: fsvd_fit_def aggregate_statistics_def)
qed

theorem failing_fit_keeps_last_field_witness:
  "fst (dsvd_fit (\<lambda>A. Inl LinAlgError) [Mat 1 [[1], [3]]] (dsvd_init None)) = Some LinAlgError
   \<and> d_U (snd (dsvd_fit (\<lambda>A. Inl LinAlgError) [Mat 1 [[1], [3]]] (dsvd_init None))) = None
   \<and> d_mean (snd (dsvd_fit (\<lambda>A. Inl LinAlgError) [Mat 1 [[1], [3]]] (dsvd_init None)))
       = Some [Fin 2]
   \<and> fst (fsvd_fit (\<lambda>A. Inl LinAlgError) [Mat 1 [[1], [3]]] (fsvd_init None 10))
       = Some LinAlgError
   \<and> f_U (snd (fsvd_fit (\<lambda>A. Inl LinAlgError) [Mat 1 [[1], [3]]] (fsvd_init None 10))) = None
   \<and> fst (ser_fit (\<lambda>A. Inl LinAlgError) (\<lambda>A b. Inl LinAlgError) (Mat 1 [[1], [3]])
            (TVec [1, 2]) (ser_init None)) = Some LinAlgError
   \<and> r_weights (snd (ser_fit (\<lambda>A. Inl LinAlgError) (\<lambda>A b. Inl LinAlgError) (Mat 1 [[1], [3]])
            (TVec [1, 2]) (ser_init None))) = None"
  using failing_fit_keeps_last_field
          [of "\<lambda>A. Inl LinAlgError" "[Mat 1 [[1], [3]]]" "dsvd_init None"
              "\<lambda>A. Inl LinAlgError" "fsvd_init None 10" "\<lambda>A b. Inl LinAlgError"
              "Mat 1 [[1], [3]]" "TVec [1, 2]" "ser_init None"]
  by (simp add: dsvd_fit_def fsvd_fit_def ser_fit_def dsvd_init_def fsvd_init_def ser_init_def
      aggregate_statistics_def compute_local_statistics_def np_defs)

text \<open>
  C9 as stated fails. DistributedSVD fitted on one partition with no rows (and one
  column) stores the mean \<open>0 / 0 = nan\<close>, finds no non-empty partition to decompose (so
  the SVD routine is never called) and raises ValueError from \<open>np.vstack\<close> of the empty
  list: the fit fails and \<open>mean_\<close> is no longer unset.
\<close>

theorem failing_fit_writes_mean:
  "dsvd_fit (\<lambda>A. Inl LinAlgError) [Mat 1 []] (dsvd_init None)
     = (Some (ValueError ''need at least one array to concatenate''),
        (dsvd_init None)\<lparr>d_mean := Some [NaN]\<rparr>)
   \<and> d_mean (dsvd_init None) = None"
  by (simp add: dsvd_fit_def dsvd_init_def np_defs)

section \<open>The aggregation identity\<close>

text \<open>
  C1, as the code has it. For every sequence of partitions with the same feature count
  and at least one row in total, \<open>_aggregate_statistics\<close> applied to the local
  statistics returns, and its covariance (the summed raw scatter matrices minus the total
  count times the outer product of the global mean) equals the scatter matrix
  \<open>Xc.T @ Xc\<close> of the row-wise concatenation of the partitions centred by the pooled
  mean.
\<close>

theorem aggregated_cov_is_pooled_scatter:
  assumes "list_all wf_mat parts"
    and "list_all (\<lambda>X. ncols X = p) parts"
    and "0 < sum_list (map nrows parts)"
  shows "\<exists>g. aggregate_statistics (map compute_local_statistics parts) = Inr g
            \<and> pooled_centered_scatter parts = Inr (cov g)"
  using aggregate_Fin[OF assms] pooled_scatter_Fin[OF assms] by simp

theorem aggregated_cov_is_pooled_scatter_witness:
  "aggregate_statistics (map compute_local_statistics [Mat 2 [[1, 2], [3, 4]], Mat 2 [[5, 9]]])
     = Inr \<lparr>mean = [Fin 3, Fin 5], cov = Mat 2 [[Fin 8, Fin 14], [Fin 14, Fin 26]], total_n = 3\<rparr>
   \<and> pooled_centered_scatter [Mat 2 [[1, 2], [3, 4]], Mat 2 [[5, 9]]]
     = Inr (Mat 2 [[Fin 8, Fin 14], [Fin 14, Fin 26]])"
proof -
  have wf: "list_all wf_mat [Mat 2 [[1, 2], [3, 4]], Mat 2 [[5, 9 :: real]]]"
    by (simp add: wf_mat_def)
  have cols: "list_all (\<lambda>X. ncols X = 2) [Mat 2 [[1, 2], [3, 4]], Mat 2 [[5, 9 :: real]]]"
    by simp
  have pos: "0 < sum_list (map nrows [Mat 2 [[1, 2], [3, 4]], Mat 2 [[5, 9 :: real]]])"
    by (simp add: nrows_def)
  have run: "aggregate_statistics
               (map compute_local_statistics [Mat 2 [[1, 2], [3, 4]], Mat 2 [[5, 9]]])
             = Inr \<lparr>mean = [Fin 3, Fin 5], cov = Mat 2 [[Fin 8, Fin 14], [Fin 14, Fin 26]],
                    total_n = 3\<rparr>"
    by code_simp
  show ?thesis
    using aggregated_cov_is_pooled_scatter[OF wf cols pos] run by simp
qed

text \<open>
  C1 as stated fails when the partitions hold no row. On one partition of shape
  \<open>(0, 1)\<close> the global mean is \<open>0 / 0 = nan\<close> and the aggregated covariance is
  \<open>0 - 0 * nan = nan\<close>, while the centred stack has no rows and its scatter matrix is
  \<open>[[0]]\<close>.
\<close>

theorem aggregated_cov_no_rows:
  "aggregate_statistics (map compute_local_statistics [Mat 1 []])
     = Inr \<lparr>mean = [NaN], cov = Mat 1 [[NaN]], total_n = 0\<rparr>
   \<and> pooled_centered_scatter [Mat 1 []] = Inr (Mat 1 [[Fin 0]])
   \<and> Mat 1 [[NaN]] \<noteq> Mat 1 [[Fin 0]]"
  by (simp add: aggregate_statistics_def compute_local_statistics_def pooled_centered_scatter_def
      np_defs)

section \<open>The global mean of DistributedSVD\<close>

text \<open>
  C2. For every sequence of partitions with the same feature count and at least one row
  in total, the mean that \<open>DistributedSVD.fit\<close> stores is, column by column, the sum of
  the per-partition column sums divided by the total row count, and it is the mean
  \<open>np.mean(np.vstack(partitions), axis=0)\<close> of the row-wise concatenation. This holds
  whatever the SVD routine does afterwards. (The witness also evaluates the average of the
  per-partition means on its data, which is a different vector.)
\<close>

theorem dsvd_fit_mean_is_pooled_mean:
  assumes "list_all wf_mat parts"
    and "list_all (\<lambda>X. ncols X = p) parts"
    and "0 < sum_list (map nrows parts)"
  shows "d_mean (snd (dsvd_fit svd parts self))
           = Some (map (\<lambda>j. Fin (sum_list (map (\<lambda>X. col_sum (rows X) j) parts)
                                   / real (sum_list (map nrows parts)))) [0..<p])
       \<and> (\<exists>X_full. np_vstack (map np_asarray parts) = Inr X_full
             \<and> d_mean (snd (dsvd_fit svd parts self)) = Some (np_mean0 X_full))"
proof -
  let ?Rs = "concat (map rows parts)"
  from assms(3) obtain X Xs where parts: "parts = X # Xs"
    by (cases parts) auto
  have N: "sum_list (map nrows parts) \<noteq> 0"
    using assms(3) by (simp only: neq0_conv)
  have m: "d_mean (snd (dsvd_fit svd parts self))
           = Some (map (\<lambda>j. Fin (sum_list (map (\<lambda>X. col_sum (rows X) j) parts)
                                   / real (sum_list (map nrows parts)))) [0..<p])"
    by (rule dsvd_fit_mean_Fin[OF assms])
  have wfR: "wf_mat (Mat p ?Rs)"
    by (rule wf_concat_rows[OF assms(1,2)])
  have stack: "np_vstack (map np_asarray parts) = Inr (np_asarray (Mat p ?Rs))"
    using vstack_asarray[OF _ assms(2)] by (simp add: parts)
  have "np_mean0 (np_asarray (Mat p ?Rs))
          = map (\<lambda>j. Fin (col_sum ?Rs j / real (length ?Rs))) [0..<p]"
    using mean0_asarray[OF wfR] N by (simp add: nrows_def total_rows_concat)
  then have "d_mean (snd (dsvd_fit svd parts self)) = Some (np_mean0 (np_asarray (Mat p ?Rs)))"
    by (simp add: m col_sum_concat total_rows_concat o_def)
  with m stack show ?thesis by simp
qed

theorem dsvd_fit_mean_is_pooled_mean_witness:
  "d_mean (snd (dsvd_fit (\<lambda>A. Inl LinAlgError) [Mat 1 [[0], [0], [0]], Mat 1 [[4]]] (dsvd_init None)))
     = Some [Fin 1]
   \<and> np_vstack (map np_asarray [Mat 1 [[0], [0], [0]], Mat 1 [[4]]])
     = Inr (Mat 1 [[Fin 0], [Fin 0], [Fin 0], [Fin 4]])
   \<and> np_mean0 (Mat 1 [[Fin 0], [Fin 0], [Fin 0], [Fin 4]]) = [Fin 1]
   \<and> average_of_partition_means 1 [Mat 1 [[0], [0], [0]], Mat 1 [[4]]] = [2]"
proof -
  have wf: "list_all wf_mat [Mat 1 [[0], [0], [0]], Mat 1 [[4 :: real]]]"
    by (simp add: wf_mat_def)
  have cols: "list_all (\<lambda>X. ncols X = 1) [Mat 1 [[0], [0], [0]], Mat 1 [[4 :: real]]]"
    by simp
  have pos: "0 < sum_list (map nrows [Mat 1 [[0], [0], [0]], Mat 1 [[4 :: real]]])"
    by (simp add: nrows_def)
  have stack: "np_vstack (map np_asarray [Mat 1 [[0], [0], [0]], Mat 1 [[4]]])
     = Inr (Mat 1 [[Fin 0], [Fin 0], [Fin 0], [Fin 4]])"
    by (simp add: np_vstack_def asarray_Mat)
  show ?thesis
    using dsvd_fit_mean_is_pooled_mean[OF wf cols pos, of "\<lambda>A. Inl LinAlgError" "dsvd_init None"]
      stack
    by (simp add: col_sum_def nrows_def np_mean0_def np_sum0_def col_def of_count_def
        average_of_partition_means_def)
qed

section \<open>Stored singular values\<close>



section \<open>Inputs that SVDEmbeddingRegression.fit does not check\<close>

text \<open>
  C8, as the code has it. \<open>fit\<close> validates nothing itself; it fails only where a
  library call fails. When the row counts of \<open>X\<close> and \<open>y\<close> differ, the fit fails (at the
  latest in \<open>lstsq\<close>, which raises LinAlgError). An \<open>X\<close> without rows is not
  rejected: when \<open>y\<close> has no rows either and the SVD routine returns the empty factors
  for the empty centred matrix, as \<open>scipy.linalg.svd\<close> does, the fit returns normally,
  with \<open>nan\<close> as the stored mean of every feature and no singular value. An
  \<open>n_components\<close> at or beyond the number of components that the SVD routine returns
  does not fail and is not clamped: the slices keep every component, and the fit does
  exactly what it does with \<open>n_components = None\<close>, the stored \<open>n_components\<close> apart.
\<close>

theorem ser_fit_has_no_validation:
  "(nrows X \<noteq> target_rows y \<longrightarrow> fst (ser_fit svd solve X y self) \<noteq> None)
   \<and> (nrows X = 0 \<longrightarrow> target_rows y = 0 \<longrightarrow>
        svd (Mat (ncols X) []) = Inr (Mat 0 [], [], Mat (ncols X) []) \<longrightarrow>
        fst (ser_fit svd solve X y self) = None
        \<and> r_mean_X (snd (ser_fit svd solve X y self)) = Some (replicate (ncols X) NaN)
        \<and> r_s (snd (ser_fit svd solve X y self)) = Some [])
   \<and> (sub_sentinel (np_asarray X) (Some (np_mean0 (np_asarray X))) = Inr Xc \<longrightarrow>
        svd Xc = Inr (U, s, Vt) \<longrightarrow> wf_mat U \<longrightarrow>
        int (ncols U) \<le> k \<longrightarrow> int (length s) \<le> k \<longrightarrow> int (nrows Vt) \<le> k \<longrightarrow>
        ser_fit svd solve X y (self\<lparr>r_n_components := Some k\<rparr>)
          = (fst (ser_fit svd solve X y (self\<lparr>r_n_components := None\<rparr>)),
             (snd (ser_fit svd solve X y (self\<lparr>r_n_components := None\<rparr>)))
               \<lparr>r_n_components := Some k\<rparr>))"
proof (intro conjI impI)
  assume "nrows X \<noteq> target_rows y"
  then show "fst (ser_fit svd solve X y self) \<noteq> None"
    by (rule ser_fit_row_mismatch)
next
  assume "nrows X = 0" and "target_rows y = 0"
    and "svd (Mat (ncols X) []) = Inr (Mat 0 [], [], Mat (ncols X) [])"
  then show "fst (ser_fit svd solve X y self) = None"
    by (rule ser_fit_no_rows)
next
  assume "nrows X = 0" and "target_rows y = 0"
    and "svd (Mat (ncols X) []) = Inr (Mat 0 [], [], Mat (ncols X) [])"
  then show "r_mean_X (snd (ser_fit svd solve X y self)) = Some (replicate (ncols X) NaN)"
    by (rule ser_fit_no_rows)
next
  assume "nrows X = 0" and "target_rows y = 0"
    and "svd (Mat (ncols X) []) = Inr (Mat 0 [], [], Mat (ncols X) [])"
  then show "r_s (snd (ser_fit svd solve X y self)) = Some []"
    by (rule ser_fit_no_rows)
next
  assume "sub_sentinel (np_asarray X) (Some (np_mean0 (np_asarray X))) = Inr Xc"
    and "svd Xc = Inr (U, s, Vt)" and "wf_mat U"
    and "int (ncols U) \<le> k" and "int (length s) \<le> k" and "int (nrows Vt) \<le> k"
  then show "ser_fit svd solve X y (self\<lparr>r_n_components := Some k\<rparr>)
          = (fst (ser_fit svd solve X y (self\<lparr>r_n_components := None\<rparr>)),
             (snd (ser_fit svd solve X y (self\<lparr>r_n_components := None\<rparr>)))
               \<lparr>r_n_components := Some k\<rparr>)"
    by (rule ser_fit_oversize)
qed

theorem ser_fit_has_no_validation_witness:
  "fst (ser_fit svd_1col lstsq_1col (Mat 1 [[1], [1], [-1], [-1]]) (TVec [1, 2, 3]) (ser_init None))
     \<noteq> None
   \<and> fst (ser_fit svd_1col lstsq_1col (Mat 1 []) (TVec []) (ser_init None)) = None
   \<and> r_mean_X (snd (ser_fit svd_1col lstsq_1col (Mat 1 []) (TVec []) (ser_init None)))
       = Some [NaN]
   \<and> r_s (snd (ser_fit svd_1col lstsq_1col (Mat 1 []) (TVec []) (ser_init None))) = Some []
   \<and> fst (ser_fit svd_1col lstsq_1col (Mat 1 [[1], [1], [-1], [-1]]) (TVec [1, 3, -1, -3])
            ((ser_init None)\<lparr>r_n_components := Some 7\<rparr>)) = None
   \<and> r_s (snd (ser_fit svd_1col lstsq_1col (Mat 1 [[1], [1], [-1], [-1]]) (TVec [1, 3, -1, -3])
            ((ser_init None)\<lparr>r_n_components := Some 7\<rparr>))) = Some [Fin 2]"
proof -
  have a: "nrows (Mat 1 [[1], [1], [-1], [-1 :: real]]) \<noteq> target_rows (TVec [1, 2, 3 :: real])"
    by (simp add: nrows_def target_rows_def)
  have b: "nrows (Mat 1 ([] :: real list list)) = 0"
    by (simp add: nrows_def)
  have b': "target_rows (TVec ([] :: real list)) = 0"
    by (simp add: target_rows_def)
  have c: "svd_1col (Mat (ncols (Mat 1 ([] :: real list list))) [])
             = Inr (Mat 0 [], [], Mat (ncols (Mat 1 ([] :: real list list))) [])"
    by (simp add: svd_1col_def nrows_def wf_mat_def)
  have d: "wf_mat (Mat 1 [[Fin (1/2)], [Fin (1/2)], [Fin (-1/2)], [Fin (-1/2)]])"
    by (simp add: wf_mat_def)
  show ?thesis
    using ser_fit_has_no_validation
            [where svd = svd_1col and solve = lstsq_1col
               and X = "Mat 1 [[1], [1], [-1], [-1]]" and y = "TVec [1, 2, 3]"
               and self = "ser_init None", THEN conjunct1, rule_format, OF a]
          ser_fit_has_no_validation
            [where svd = svd_1col and solve = lstsq_1col
               and X = "Mat 1 []" and y = "TVec []"
               and self = "ser_init None", THEN conjunct2, THEN conjunct1, rule_format, OF b b' c]
          ser_fit_has_no_validation
            [where svd = svd_1col and solve = lstsq_1col
               and X = "Mat 1 [[1], [1], [-1], [-1]]" and y = "TVec [1, 3, -1, -3]"
               and self = "ser_init None" and k = 7,
             THEN conjunct2, THEN conjunct2, rule_format,
             OF ser_centered_example svd_1col_example d]
          ser_example_run
    by (simp add: nrows_def ser_init_def)
qed

text \<open>
  C8 as stated fails on its first and on its third input. With \<open>X\<close> of shape
  \<open>(0, 1)\<close> and \<open>y\<close> of shape \<open>(0,)\<close> the fit returns normally: the means are
  \<open>nan\<close>, the factors and the weights are empty. With \<open>X\<close> of shape \<open>(4, 1)\<close> and
  \<open>n_components = 5 > min(4, 1)\<close> the fit returns normally with one stored singular value,
  and \<open>n_components\<close> is still 5: nothing was rejected and nothing was clamped.
\<close>

theorem ser_fit_accepts_no_rows_and_oversize_n_components:
  "ser_fit svd_1col lstsq_1col (Mat 1 []) (TVec []) (ser_init None)
     = (None,
        \<lparr>r_n_components = None,
         r_U = Some (Mat 0 []),
         r_s = Some [],
         r_Vt = Some (Mat 1 []),
         r_weights = Some (TVec []),
         r_mean_X = Some [NaN],
         r_mean_y = Some (YScalar NaN)\<rparr>)
   \<and> ser_fit svd_1col lstsq_1col (Mat 1 [[1], [1], [-1], [-1]]) (TVec [1, 3, -1, -3])
     (ser_init (Some 5))
     = (None,
        \<lparr>r_n_components = Some 5,
         r_U = Some (Mat 1 [[Fin (1/2)], [Fin (1/2)], [Fin (-1/2)], [Fin (-1/2)]]),
         r_s = Some [Fin 2],
         r_Vt = Some (Mat 1 [[Fin 1]]),
         r_weights = Some (TVec [Fin 2]),
         r_mean_X = Some [Fin 0],
         r_mean_y = Some (YScalar (Fin 0))\<rparr>)
   \<and> (5 :: int) > min 4 1"
  by (simp add: ser_fit_def ser_init_def svd_1col_def lstsq_1col_def lstsq_zero_def wf_mat_def
      Let_def np_defs)

section \<open>The round trip of DistributedSVD\<close>

text \<open>
  C5, as the code has it. Let the partitions share the feature count \<open>p\<close> and hold at
  least one row, let \<open>X\<close> have \<open>p\<close> columns, and let the SVD routine keep its contract
  on the right factor. If a fitted DistributedSVD stores as many components as there are
  features, \<open>p\<close> of them, then \<open>inverse_transform(transform(X))\<close> is \<open>X\<close>. With
  fewer components, and so whenever the data have fewer rows than features, the round trip
  is a projection, and its squared error does not grow when \<open>n_components\<close> grows by
  one: the model fitted with \<open>k + 1\<close> components reconstructs \<open>X\<close> at least as well
  as the model fitted with \<open>k\<close> components on the same partitions.
\<close>

theorem roundtrip_full_rank_and_error:
  assumes contract: "svd_factor_contract svd"
    and wf: "list_all wf_mat parts"
    and cols: "list_all (\<lambda>A. ncols A = p) parts"
    and pos: "0 < sum_list (map nrows parts)"
    and X: "wf_mat X" "ncols X = p"
  shows "(dsvd_fit svd parts self = (None, m) \<longrightarrow> (\<exists>W. d_Vt m = Some W \<and> nrows W = p) \<longrightarrow>
           (\<exists>T. dsvd_transform X m = Inr T \<and> dsvd_inverse_transform T m = Inr (np_asarray X)))
       \<and> (0 \<le> k \<longrightarrow>
           dsvd_fit svd parts (self\<lparr>d_n_components := Some k\<rparr>) = (None, m1) \<longrightarrow>
           dsvd_fit svd parts (self\<lparr>d_n_components := Some (k + 1)\<rparr>) = (None, m2) \<longrightarrow>
           (\<exists>e1 e2. roundtrip_error X m1 = Inr (Fin e1) \<and> roundtrip_error X m2 = Inr (Fin e2)
                    \<and> 0 \<le> e2 \<and> e2 \<le> e1))"
proof (intro conjI impI)
  assume fit: "dsvd_fit svd parts self = (None, m)"
    and full: "\<exists>W. d_Vt m = Some W \<and> nrows W = p"
  from dsvd_fit_pair[OF fit fit contract wf cols pos] obtain V where
    V: "wf_mat V" "ncols V = p" "nrows V \<le> p" "orthonormal_rows V"
       "nrows V = p \<longrightarrow> orthonormal_cols V"
    and Vt: "d_Vt m = Some (case d_n_components self of
                               None \<Rightarrow> np_asarray V | Some k \<Rightarrow> slice_rows k (np_asarray V))"
    and mean: "d_mean m = Some (map (\<lambda>j. Fin (sum_list (map (\<lambda>X. col_sum (rows X) j) parts)
                                   / real (sum_list (map nrows parts)))) [0..<p])"
    by blast
  have whole: "d_Vt m = Some (np_asarray V) \<and> nrows V = p"
  proof (cases "d_n_components self")
    case None
    with Vt full show ?thesis by simp
  next
    case (Some k')
    with Vt full have n: "nrows (slice_rows k' (np_asarray V)) = p"
      by simp
    moreover have "nrows (slice_rows k' (np_asarray V)) \<le> nrows (np_asarray V)"
      by (rule nrows_slice_rows_le)
    ultimately have "nrows (np_asarray V) = p"
      using V(3) by simp
    with n Vt Some show ?thesis
      by (simp add: slice_rows_full)
  qed
  then have Vt': "d_Vt m = Some (fin_mat p p (\<lambda>i j. rows V ! i ! j))"
    using V(1,2) by (simp add: asarray_fin_mat)
  have "(\<Sum>l<p. rows V ! l ! d * rows V ! l ! j) = (if d = j then 1 else 0)"
    if "d < p" "j < p" for d j
    using orthonormal_cols_index[of V d j] V(2,5) whole that by simp
  then show "\<exists>T. dsvd_transform X m = Inr T \<and> dsvd_inverse_transform T m = Inr (np_asarray X)"
    by (rule roundtrip_exact_fin[OF mean Vt' X])
next
  assume k: "0 \<le> k"
    and fit1: "dsvd_fit svd parts (self\<lparr>d_n_components := Some k\<rparr>) = (None, m1)"
    and fit2: "dsvd_fit svd parts (self\<lparr>d_n_components := Some (k + 1)\<rparr>) = (None, m2)"
  from dsvd_fit_pair[OF fit1 fit2 contract wf cols pos] obtain V where
    V: "wf_mat V" "ncols V = p" "orthonormal_rows V"
    and Vt1: "d_Vt m1 = Some (slice_rows k (np_asarray V))"
    and Vt2: "d_Vt m2 = Some (slice_rows (k + 1) (np_asarray V))"
    and mean1: "d_mean m1 = Some (map (\<lambda>j. Fin (sum_list (map (\<lambda>X. col_sum (rows X) j) parts)
                                   / real (sum_list (map nrows parts)))) [0..<p])"
    and mean2: "d_mean m2 = d_mean m1"
    by auto
  let ?v = "\<lambda>i j. rows V ! i ! j"
  let ?m = "\<lambda>j. sum_list (map (\<lambda>X. col_sum (rows X) j) parts) / real (sum_list (map nrows parts))"
  let ?r1 = "min (nat k) (nrows V)" and ?r2 = "min (nat k + 1) (nrows V)"
  have k1: "nat (k + 1) = nat k + 1"
    using k by simp
  have V1: "d_Vt m1 = Some (fin_mat ?r1 p ?v)"
    using V(1,2) Vt1 k by (simp add: asarray_fin_mat slice_rows_fin_mat_int)
  have V2: "d_Vt m2 = Some (fin_mat ?r2 p ?v)"
    using V(1,2) Vt2 k by (simp add: asarray_fin_mat slice_rows_fin_mat_int k1)
  have orth: "(\<Sum>j<p. ?v i j * ?v l j) = (if i = l then 1 else 0)"
    if "i < nrows V" "l < nrows V" for i l
    using orthonormal_rows_index[OF V(1,3) that] V(2) by simp
  let ?t = "\<lambda>i l. (\<Sum>d<p. (rows X ! i ! d - ?m d) * ?v l d) ^ 2"
  let ?a = "\<lambda>i. \<Sum>j<p. (rows X ! i ! j - ?m j) ^ 2"
  have e1: "roundtrip_error X m1 = Inr (Fin (\<Sum>i<nrows X. ?a i - (\<Sum>l<?r1. ?t i l)))"
    by (rule roundtrip_error_orthonormal[OF mean1 V1 X]) (simp add: orth)
  have e2: "roundtrip_error X m2 = Inr (Fin (\<Sum>i<nrows X. ?a i - (\<Sum>l<?r2. ?t i l)))"
    by (rule roundtrip_error_orthonormal[OF mean2[unfolded mean1] V2 X]) (simp add: orth)
  have "(\<Sum>l<?r1. ?t i l) \<le> (\<Sum>l<?r2. ?t i l)" for i
    by (rule sum_mono2) auto
  then have le: "(\<Sum>i<nrows X. ?a i - (\<Sum>l<?r2. ?t i l)) \<le> (\<Sum>i<nrows X. ?a i - (\<Sum>l<?r1. ?t i l))"
    by (intro sum_mono) simp
  have "roundtrip_error X m2 = Inr (Fin (\<Sum>i<nrows X. \<Sum>j<p.
                (rows X ! i ! j
                  - ((\<Sum>l<?r2. (\<Sum>d<p. (rows X ! i ! d - ?m d) * ?v l d) * ?v l j) + ?m j)) ^ 2))"
    by (rule roundtrip_error_fin[OF mean2[unfolded mean1] V2 X])
  with e2 have "(\<Sum>i<nrows X. ?a i - (\<Sum>l<?r2. ?t i l)) = (\<Sum>i<nrows X. \<Sum>j<p.
                (rows X ! i ! j
                  - ((\<Sum>l<?r2. (\<Sum>d<p. (rows X ! i ! d - ?m d) * ?v l d) * ?v l j) + ?m j)) ^ 2)"
    by simp
  then have "0 \<le> (\<Sum>i<nrows X. ?a i - (\<Sum>l<?r2. ?t i l))"
    by (simp add: sum_nonneg)
  with e1 e2 le show "\<exists>e1 e2. roundtrip_error X m1 = Inr (Fin e1)
      \<and> roundtrip_error X m2 = Inr (Fin e2) \<and> 0 \<le> e2 \<and> e2 \<le> e1"
    by blast
qed

theorem roundtrip_full_rank_and_error_witness:
  "dsvd_transform (Mat 2 [[6, 2]])
     (snd (dsvd_fit (svd_lookup svd_table_tall) [Mat 2 [[3, 13], [11, 7], [-9, -3], [-1, -9]]]
            (dsvd_init None)))
     = Inr (Mat 2 [[Fin 3, Fin (-4)]])
   \<and> dsvd_inverse_transform (Mat 2 [[Fin 3, Fin (-4)]])
       (snd (dsvd_fit (svd_lookup svd_table_tall) [Mat 2 [[3, 13], [11, 7], [-9, -3], [-1, -9]]]
              (dsvd_init None)))
     = Inr (np_asarray (Mat 2 [[6, 2]]))
   \<and> roundtrip_error (Mat 2 [[6, 2]])
       (snd (dsvd_fit (svd_lookup svd_table_tall) [Mat 2 [[3, 13], [11, 7], [-9, -3], [-1, -9]]]
              ((dsvd_init None)\<lparr>d_n_components := Some 1\<rparr>))) = Inr (Fin 16)
   \<and> roundtrip_error (Mat 2 [[6, 2]])
       (snd (dsvd_fit (svd_lookup svd_table_tall) [Mat 2 [[3, 13], [11, 7], [-9, -3], [-1, -9]]]
              ((dsvd_init None)\<lparr>d_n_components := Some (1 + 1)\<rparr>))) = Inr (Fin 0)"
proof -
  let ?parts = "[Mat 2 [[3, 13], [11, 7], [-9, -3], [-1, -9 :: real]]]"
  let ?m = "snd (dsvd_fit (svd_lookup svd_table_tall) ?parts (dsvd_init None))"
  let ?m1 = "snd (dsvd_fit (svd_lookup svd_table_tall) ?parts
                    ((dsvd_init None)\<lparr>d_n_components := Some 1\<rparr>))"
  let ?m2 = "snd (dsvd_fit (svd_lookup svd_table_tall) ?parts
                    ((dsvd_init None)\<lparr>d_n_components := Some (1 + 1)\<rparr>))"
  have contract: "svd_factor_contract (svd_lookup svd_table_tall)"
    by (rule thin_factor_contract[OF svd_lookup_contract])
  have wf: "list_all wf_mat ?parts"
    by (simp add: wf_mat_def)
  have cols: "list_all (\<lambda>A. ncols A = 2) ?parts"
    by simp
  have pos: "0 < sum_list (map nrows ?parts)"
    by (simp add: nrows_def)
  have X: "wf_mat (Mat 2 [[6, 2 :: real]])" "ncols (Mat 2 [[6, 2 :: real]]) = 2"
    by (simp_all add: wf_mat_def)
  have t: "dsvd_transform (Mat 2 [[6, 2]]) ?m = Inr (Mat 2 [[Fin 3, Fin (-4)]])"
    unfolding dsvd_run_tall_all by code_simp
  have e1: "roundtrip_error (Mat 2 [[6, 2]]) ?m1 = Inr (Fin 16)"
    unfolding dsvd_run_tall_1 by code_simp
  have e2: "roundtrip_error (Mat 2 [[6, 2]]) ?m2 = Inr (Fin 0)"
    unfolding dsvd_run_tall_2 by code_simp
  have full: "\<exists>W. d_Vt ?m = Some W \<and> nrows W = 2"
    unfolding dsvd_run_tall_all by (simp add: nrows_def)
  note T = roundtrip_full_rank_and_error[OF contract wf cols pos X,
      where self = "dsvd_init None" and k = 1 and m = ?m and ?m1.0 = ?m1 and ?m2.0 = ?m2]
  from T[THEN conjunct1, rule_format, OF _ full] t
  have inv: "dsvd_inverse_transform (Mat 2 [[Fin 3, Fin (-4)]]) ?m = Inr (np_asarray (Mat 2 [[6, 2]]))"
    by (simp add: dsvd_run_tall_all)
  have fit1: "dsvd_fit (svd_lookup svd_table_tall) ?parts
                ((dsvd_init None)\<lparr>d_n_components := Some 1\<rparr>) = (None, ?m1)"
    by (simp add: dsvd_run_tall_1)
  have fit2: "dsvd_fit (svd_lookup svd_table_tall) ?parts
                ((dsvd_init None)\<lparr>d_n_components := Some (1 + 1)\<rparr>) = (None, ?m2)"
    by (simp only: dsvd_run_tall_2 snd_conv)
  from T[THEN conjunct2, rule_format, OF _ fit1 fit2]
  have "\<exists>a b. roundtrip_error (Mat 2 [[6, 2]]) ?m1 = Inr (Fin a)
           \<and> roundtrip_error (Mat 2 [[6, 2]]) ?m2 = Inr (Fin b) \<and> 0 \<le> b \<and> b \<le> a"
    by simp
  then show ?thesis
    using t inv e1 e2 by simp
qed

text \<open>
  C5 as stated fails when the data have fewer rows than features. DistributedSVD fitted
  with \<open>n_components = 2\<close> on the single partition \<open>[[2, 1, 0], [0, 1, 0]]\<close> of shape
  \<open>(2, 3)\<close> keeps every component there is, \<open>min(2, 3) = 2\<close> of them, and both right
  singular vectors lie in the plane of the first two features. The round trip of
  \<open>[0, 0, 1]\<close> is \<open>[0, 0, 0]\<close>: the third feature is lost.
\<close>

theorem roundtrip_min_rank_loses_feature:
  "dsvd_fit (svd_lookup svd_table_wide) [Mat 3 [[2, 1, 0], [0, 1, 0]]] (dsvd_init (Some 2))
     = (None,
        \<lparr>d_n_components = Some 2,
         d_U = Some (Mat 2 [[Fin (- (1 / sqrt 2)), NaN], [Fin (1 / sqrt 2), NaN]]),
         d_s = Some [Fin (sqrt 2), Fin 0],
         d_Vt = Some (Mat 3 [[Fin (-1), Fin 0, Fin 0], [Fin 0, Fin 1, Fin 0]]),
         d_mean = Some [Fin 1, Fin 1, Fin 0]\<rparr>)
   \<and> (2 :: int) = min 2 3
   \<and> dsvd_transform (Mat 3 [[0, 0, 1]])
        (snd (dsvd_fit (svd_lookup svd_table_wide) [Mat 3 [[2, 1, 0], [0, 1, 0]]] (dsvd_init (Some 2))))
      = Inr (Mat 2 [[Fin 1, Fin (-1)]])
   \<and> dsvd_inverse_transform (Mat 2 [[Fin 1, Fin (-1)]])
        (snd (dsvd_fit (svd_lookup svd_table_wide) [Mat 3 [[2, 1, 0], [0, 1, 0]]] (dsvd_init (Some 2))))
      = Inr (Mat 3 [[Fin 0, Fin 0, Fin 0]])
   \<and> Mat 3 [[Fin 0, Fin 0, Fin 0]] \<noteq> np_asarray (Mat 3 [[0, 0, 1]])"
  by (simp add: dsvd_fit_def dsvd_init_def dsvd_transform_def dsvd_inverse_transform_def
      svd_lookup_def svd_table_wide_def is_thin_svd_def all_finite_def real_mat_def wf_mat_def
      descending_nonneg_def orthonormal_rows_def orthonormal_cols_def Let_def np_defs upt_2 upt_3)

end
